theory Spec2Isabelle
  imports Main
begin

section \<open>Python strings and built-ins used by the downloader\<close>

text \<open>
  A Python \<open>str\<close> is modelled as a HOL \<open>string\<close>, one \<open>char\<close> per code point. A
  \<open>char\<close> has eight bits, so the strings of the model are the Python strings whose
  code points lie between 0 and 255 (Latin-1), and \<open>CHR 0xA0\<close> is the code point
  U+00A0. The character classes below are those of CPython on that whole range.
\<close>

definition code_point :: "char \<Rightarrow> nat" where
  "code_point c = of_char c"

definition code_points :: "string \<Rightarrow> nat list" where
  "code_points s = map code_point s"

text \<open>
  White space, for \<open>str.strip\<close>, \<open>str.rstrip\<close> and the class \<open>\s\<close> of a \<open>str\<close> pattern:
  the characters for which \<open>str.isspace\<close> holds. Up to U+00FF these are U+0009 to
  U+000D, U+001C to U+001F, the space, U+0085 (next line) and U+00A0 (no-break
  space).
\<close>

definition py_whitespace :: "char list" where
  "py_whitespace =
     [CHR 0x09, CHR 0x0A, CHR 0x0B, CHR 0x0C, CHR 0x0D,
      CHR 0x1C, CHR 0x1D, CHR 0x1E, CHR 0x1F, CHR 0x20, CHR 0x85, CHR 0xA0]"

definition isspace :: "char \<Rightarrow> bool" where
  "isspace c = (c \<in> set py_whitespace)"

text \<open>
  Decimal digits, the class \<open>\d\<close> of a \<open>str\<close> pattern (\<open>str.isdecimal\<close>): up to U+00FF
  only \<open>0\<close> to \<open>9\<close>.
\<close>

definition isdecimal_char :: "char \<Rightarrow> bool" where
  "isdecimal_char c = (c \<in> set ''0123456789'')"

text \<open>
  Digits in the sense of \<open>str.isdigit\<close>: the decimal digits and the characters of
  numeric type digit, which up to U+00FF are the superscripts U+00B2, U+00B3 and
  U+00B9.
\<close>

definition isdigit_char :: "char \<Rightarrow> bool" where
  "isdigit_char c = (isdecimal_char c \<or> c \<in> set [CHR 0xB2, CHR 0xB3, CHR 0xB9])"

text \<open>\<open>s.isdigit()\<close>: every character is a digit and there is at least one.\<close>

definition isdigit :: "string \<Rightarrow> bool" where
  "isdigit s = (s \<noteq> [] \<and> list_all isdigit_char s)"

definition lstrip :: "string \<Rightarrow> string" where
  "lstrip s = dropWhile isspace s"

definition rstrip :: "string \<Rightarrow> string" where
  "rstrip s = rev (dropWhile isspace (rev s))"

definition strip :: "string \<Rightarrow> string" where
  "strip s = rstrip (lstrip s)"

text \<open>
  \<open>s.lower()\<close>. Up to U+00FF the characters with a lower-case mapping are \<open>A\<close> to \<open>Z\<close>
  and the capitals U+00C0 to U+00DE without the multiplication sign U+00D7; each
  goes to the code point 32 above it, which is again below 256.
\<close>

definition lower_char :: "char \<Rightarrow> char" where
  "lower_char c =
     (let n = code_point c
      in if (0x41 \<le> n \<and> n \<le> 0x5A) \<or> (0xC0 \<le> n \<and> n \<le> 0xDE \<and> n \<noteq> 0xD7)
         then char_of (n + 0x20)
         else c)"

definition lower :: "string \<Rightarrow> string" where
  "lower s = map lower_char s"

text \<open>
  \<open>s.upper()\<close>. The result can leave the range of \<open>char\<close>, so it is given as the list
  of its code points: \<open>a\<close> to \<open>z\<close> and the small letters U+00E0 to U+00FE without
  the division sign U+00F7 go to the code point 32 below them, the micro sign
  U+00B5 goes to U+039C, the sharp s U+00DF to the two letters \<open>SS\<close>, and U+00FF to
  U+0178; every other character is unchanged. The code only compares the result
  with a literal, \<open>profile == "LC"\<close>, which is the comparison of the code points.
\<close>

definition upper_char :: "char \<Rightarrow> nat list" where
  "upper_char c =
     (let n = code_point c
      in if (0x61 \<le> n \<and> n \<le> 0x7A) \<or> (0xE0 \<le> n \<and> n \<le> 0xFE \<and> n \<noteq> 0xF7)
         then [n - 0x20]
         else if n = 0xB5 then [0x39C]
         else if n = 0xDF then [0x53, 0x53]
         else if n = 0xFF then [0x178]
         else [n])"

definition upper :: "string \<Rightarrow> nat list" where
  "upper s = concat (map upper_char s)"

text \<open>\<open>s.startswith(p)\<close>.\<close>

definition startswith :: "string \<Rightarrow> string \<Rightarrow> bool" where
  "startswith s p = (take (length p) s = p)"

text \<open>\<open>sep.join(xs)\<close>.\<close>

fun join :: "string \<Rightarrow> string list \<Rightarrow> string" where
  "join sep [] = []"
| "join sep [x] = x"
| "join sep (x # y # ys) = x @ sep @ join sep (y # ys)"

text \<open>Exceptions that the modelled code can meet.\<close>

datatype py_error = ValueError | OverflowError

text \<open>Decimal rendering of an integer, the text that \<open>str(n)\<close> produces.\<close>

definition digit_char :: "nat \<Rightarrow> char" where
  "digit_char d = ''0123456789'' ! d"

fun show_nat :: "nat \<Rightarrow> string" where
  "show_nat n = (if n < 10 then [digit_char n] else show_nat (n div 10) @ [digit_char (n mod 10)])"

declare show_nat.simps [simp del]

definition show_int :: "int \<Rightarrow> string" where
  "show_int n = (if n < 0 then CHR ''-'' # show_nat (nat (- n)) else show_nat (nat n))"

section \<open>The interpreter and the platform\<close>

text \<open>
  What \<open>build_cmd\<close> reads from outside the configuration: \<open>sys.executable\<close>, the
  string of a path joined with a name, \<open>str(out_dir / name)\<close>, which belongs to
  \<open>pathlib\<close>, and the interpreter's limit on the number of digits of an integer
  converted to a string (\<open>sys.get_int_max_str_digits()\<close>: 4300 unless configured,
  0 for no limit, and never between 1 and 639).
\<close>

type_synonym path = string

record py_env =
  sys_executable :: string
  path_join :: "path \<Rightarrow> string \<Rightarrow> string"
  int_max_str_digits :: nat

text \<open>
  \<open>str(n)\<close> for an \<open>int\<close>: raises \<open>ValueError\<close> when a limit is set and the number
  has more digits than the limit (the sign is not counted).
\<close>

definition py_str_int :: "py_env \<Rightarrow> int \<Rightarrow> py_error + string" where
  "py_str_int env n =
     (if 0 < int_max_str_digits env \<and> int_max_str_digits env < length (show_nat (nat \<bar>n\<bar>))
      then Inl ValueError
      else Inr (show_int n))"

section \<open>Constants and the configuration\<close>

definition VIDEO_QUALITIES :: "string list" where
  "VIDEO_QUALITIES = [''Best'', ''8K'', ''4K'', ''1440p'', ''1080p'', ''720p'', ''480p'', ''360p'']"

definition QUALITY_TO_HEIGHT :: "(string \<times> string) list" where
  "QUALITY_TO_HEIGHT =
     [(''8K'', ''4320''), (''4K'', ''2160''), (''1440p'', ''1440''), (''1080p'', ''1080''),
      (''720p'', ''720''), (''480p'', ''480''), (''360p'', ''360'')]"

definition VIDEO_CONTAINERS :: "string list" where
  "VIDEO_CONTAINERS = [''mp4'', ''webm'']"

definition AUDIO_FORMATS :: "string list" where
  "AUDIO_FORMATS = [''mp3'', ''m4a'', ''opus'', ''ogg'', ''flac'', ''wav'']"

definition AUDIO_BITRATES :: "string list" where
  "AUDIO_BITRATES = [''128'', ''192'', ''256'', ''320'']"

definition DEFAULT_TEMPLATE :: string where
  "DEFAULT_TEMPLATE = ''%(title)s.%(ext)s''"

record DownloadConfig =
  url :: string
  mode :: string
  video_quality :: string
  video_container :: string
  audio_format :: string
  audio_bitrate :: string
  sample_rate :: string
  channels :: string
  mp3_normalize :: bool
  flac_comp_level :: int
  ogg_quality :: string
  aac_profile :: string
  out_dir :: path
  allow_playlist :: bool
  force_single :: bool
  name_template :: string
  ffmpeg_extra :: string
  meta_artist :: string
  meta_album :: string
  meta_title_override :: string

section \<open>DownloadWorker.build_cmd\<close>

text \<open>The output template (source lines 69 to 72).\<close>

definition out_template :: "py_env \<Rightarrow> DownloadConfig \<Rightarrow> string" where
  "out_template env cfg =
     (if strip (meta_title_override cfg) \<noteq> []
      then path_join env (out_dir cfg) (strip (meta_title_override cfg) @ ''.%(ext)s'')
      else path_join env (out_dir cfg)
             (if name_template cfg \<noteq> [] then name_template cfg else DEFAULT_TEMPLATE))"

text \<open>
  The list \<open>ff_args\<close> after the three metadata blocks (source lines 75 to 81). Each
  block appends to the list built so far.
\<close>

definition ff_args_meta :: "DownloadConfig \<Rightarrow> string list" where
  "ff_args_meta cfg =
     (let ff_args = [];
          ff_args = (if strip (meta_artist cfg) \<noteq> []
                     then ff_args @ [''-metadata'', ''artist='' @ strip (meta_artist cfg)]
                     else ff_args);
          ff_args = (if strip (meta_album cfg) \<noteq> []
                     then ff_args @ [''-metadata'', ''album='' @ strip (meta_album cfg)]
                     else ff_args);
          ff_args = (if strip (meta_title_override cfg) \<noteq> []
                     then ff_args @ [''-metadata'', ''title='' @ strip (meta_title_override cfg)]
                     else ff_args)
      in ff_args)"

text \<open>
  The audio block (source lines 83 to 102), run on the list built so far. The only
  statement of it that can raise is \<open>str(self.cfg.flac_comp_level)\<close>.
\<close>

definition ff_args_audio :: "py_env \<Rightarrow> DownloadConfig \<Rightarrow> string list \<Rightarrow> py_error + string list" where
  "ff_args_audio env cfg ff_args0 =
     (let fmt = lower (audio_format cfg);
          ff_args = (if fmt = ''mp3'' \<and> mp3_normalize cfg
                     then ff_args0 @ [''-filter:a'', ''loudnorm'']
                     else ff_args0)
      in case (if fmt = ''flac''
               then (case py_str_int env (flac_comp_level cfg) of
                       Inl e \<Rightarrow> Inl e
                     | Inr lvl \<Rightarrow> Inr (ff_args @ [''-compression_level'', lvl]))
               else Inr ff_args) of
           Inl e \<Rightarrow> Inl e
         | Inr ff_args \<Rightarrow>
             (let ff_args = (if fmt = ''ogg'' \<or> fmt = ''opus''
                             then (let q = lower (ogg_quality cfg)
                                   in if startswith q ''q''
                                      then ff_args @ [''-q:a'', drop 1 q]
                                      else ff_args)
                             else ff_args);
                  ff_args = (if fmt = ''m4a''
                             then (let profile = upper (aac_profile cfg)
                                   in if profile = code_points ''LC''
                                      then ff_args @ [''-profile:a'', ''aac_low'']
                                      else if profile = code_points ''HE''
                                      then ff_args @ [''-profile:a'', ''aac_he'']
                                      else ff_args)
                             else ff_args);
                  ff_args = (if sample_rate cfg \<noteq> [] \<and> isdigit (sample_rate cfg)
                             then ff_args @ [''-ar'', sample_rate cfg]
                             else ff_args);
                  ff_args = (if channels cfg \<noteq> [] \<and> channels cfg \<in> set [''mono'', ''stereo'']
                             then ff_args @ [''-ac'', if channels cfg = ''mono'' then ''1'' else ''2'']
                             else ff_args)
              in Inr ff_args))"

text \<open>The whole list \<open>ff_args\<close> (source lines 75 to 105).\<close>

definition ff_args_of :: "py_env \<Rightarrow> DownloadConfig \<Rightarrow> py_error + string list" where
  "ff_args_of env cfg =
     (case (if mode cfg = ''audio''
            then ff_args_audio env cfg (ff_args_meta cfg)
            else Inr (ff_args_meta cfg)) of
        Inl e \<Rightarrow> Inl e
      | Inr ff_args \<Rightarrow>
          Inr (if strip (ffmpeg_extra cfg) \<noteq> []
               then ff_args @ [strip (ffmpeg_extra cfg)]
               else ff_args))"

text \<open>The format selection (source lines 110 to 128).\<close>

definition format_args :: "DownloadConfig \<Rightarrow> string list" where
  "format_args cfg =
     (if mode cfg = ''audio''
      then [''-f'', ''bestaudio/best'',
            ''--extract-audio'',
            ''--audio-format'', lower (audio_format cfg),
            ''--audio-quality'', audio_bitrate cfg @ ''k'']
      else (let cont = lower (video_container cfg);
                qual = video_quality cfg
            in if qual = ''Best''
               then [''-f'', ''bestvideo+bestaudio/best'', ''--merge-output-format'', cont]
               else (let selector =
                          (case map_of QUALITY_TO_HEIGHT qual of
                             Some h \<Rightarrow>
                               (if h \<noteq> []
                                then ''bestvideo[height<='' @ h @ '']+bestaudio/best[height<='' @ h @ '']''
                                else ''bestvideo+bestaudio/best'')
                           | None \<Rightarrow> ''bestvideo+bestaudio/best'')
                     in [''-f'', selector, ''--merge-output-format'', cont])))"

text \<open>
  \<open>build_cmd\<close>: the argument vector, or the exception that leaves the method.
\<close>

definition build_cmd :: "py_env \<Rightarrow> DownloadConfig \<Rightarrow> py_error + string list" where
  "build_cmd env cfg =
     (let cmd = [sys_executable env, ''-m'', ''yt_dlp'', ''--newline''];
          cmd = cmd @ [if allow_playlist cfg \<and> \<not> force_single cfg
                       then ''--yes-playlist'' else ''--no-playlist''];
          cmd = cmd @ [''-o'', out_template env cfg]
      in case ff_args_of env cfg of
           Inl e \<Rightarrow> Inl e
         | Inr ff_args \<Rightarrow>
             (let cmd = (if ff_args \<noteq> []
                         then cmd @ [''--postprocessor-args'', join '' '' ff_args]
                         else cmd);
                  cmd = cmd @ format_args cfg;
                  cmd = cmd @ [strip (url cfg)]
              in Inr cmd))"

section \<open>The progress pattern\<close>

text \<open>
  The compiled pattern of \<open>run\<close> is \<^verbatim>\<open>\[download\]\s+(\d+(?:\.\d+)?)%\<close>.
  \<open>pat_match_at s\<close> is the attempt of the matching engine at the first position of \<open>s\<close>;
  its result is group 1. The greedy repetitions take the longest run of their class: a
  shorter run would leave a character of the same class in front of an element that
  cannot match it, so giving characters back never helps.
\<close>

definition pat_match_at :: "string \<Rightarrow> string option" where
  "pat_match_at s =
     (if startswith s ''[download]''
      then (let r = drop 10 s;
                ws = takeWhile isspace r;
                r = dropWhile isspace r
            in if ws = [] then None
               else (let ip = takeWhile isdecimal_char r;
                         r = dropWhile isdecimal_char r
                     in if ip = [] then None
                        else (case r of
                                [] \<Rightarrow> None
                              | c # r' \<Rightarrow>
                                  if c = CHR ''%'' then Some ip
                                  else if c = CHR ''.''
                                  then (let fp = takeWhile isdecimal_char r';
                                            r'' = dropWhile isdecimal_char r'
                                        in if fp \<noteq> [] \<and> take 1 r'' = ''%''
                                           then Some (ip @ ''.'' @ fp)
                                           else None)
                                  else None)))
      else None)"

text \<open>\<open>pat.search(line)\<close>: the match at the leftmost position that has one.\<close>

fun pat_search :: "string \<Rightarrow> string option" where
  "pat_search [] = pat_match_at []"
| "pat_search (c # cs) =
     (case pat_match_at (c # cs) of
        Some g \<Rightarrow> Some g
      | None \<Rightarrow> pat_search cs)"

section \<open>Converting the matched number\<close>

text \<open>
  \<open>float(text)\<close> rounds the decimal number to the nearest binary64 value, ties to the
  even significand, and gives infinity from \<open>2^1024 - 2^970\<close> on. A finite value is kept
  as a significand and an exponent of two. \<open>int(x)\<close> truncates a finite value and raises
  \<open>OverflowError\<close> on infinity. The text is group 1 of the pattern, so it has the form
  digits or digits, point, digits, and no sign.
\<close>

datatype py_float = Finite nat int | Infinity

fun bit_length :: "nat \<Rightarrow> nat" where
  "bit_length n = (if n = 0 then 0 else Suc (bit_length (n div 2)))"

declare bit_length.simps [simp del]

text \<open>\<open>floor_log2 n d\<close> is the integer \<open>e\<close> with \<open>2^e \<le> n / d < 2^(e + 1)\<close>, for positive \<open>n\<close>, \<open>d\<close>.\<close>

definition floor_log2 :: "nat \<Rightarrow> nat \<Rightarrow> int" where
  "floor_log2 n d =
     (let e0 = int (bit_length n) - int (bit_length d)
      in if (if 0 \<le> e0 then d * 2 ^ nat e0 \<le> n else d \<le> n * 2 ^ nat (- e0))
         then e0 else e0 - 1)"

text \<open>The integer nearest to \<open>a / b\<close>, a tie going to the even one.\<close>

definition round_half_even :: "nat \<Rightarrow> nat \<Rightarrow> nat" where
  "round_half_even a b =
     (let q = a div b; r = a mod b
      in if 2 * r < b then q
         else if b < 2 * r then q + 1
         else if even q then q else q + 1)"

definition float_of_ratio :: "nat \<Rightarrow> nat \<Rightarrow> py_float" where
  "float_of_ratio n d =
     (if n = 0 then Finite 0 0
      else (let e = max (floor_log2 n d) (- 1022);
                sh = e - 52;
                m = (if 0 \<le> sh then round_half_even n (d * 2 ^ nat sh)
                     else round_half_even (n * 2 ^ nat (- sh)) d)
            in if 0 \<le> sh \<and> 2 ^ 1024 \<le> m * 2 ^ nat sh then Infinity else Finite m sh))"

definition digit_value :: "char \<Rightarrow> nat" where
  "digit_value c = of_char c - 48"

definition nat_of_digits :: "string \<Rightarrow> nat" where
  "nat_of_digits ds = foldl (\<lambda>acc c. 10 * acc + digit_value c) 0 ds"

definition py_float_decimal :: "string \<Rightarrow> py_float" where
  "py_float_decimal txt =
     (let ip = takeWhile isdecimal_char txt;
          fp = drop (length ip + 1) txt
      in float_of_ratio (nat_of_digits (ip @ fp)) (10 ^ length fp))"

definition py_int_float :: "py_float \<Rightarrow> py_error + int" where
  "py_int_float x =
     (case x of
        Infinity \<Rightarrow> Inl OverflowError
      | Finite m sh \<Rightarrow>
          Inr (if 0 \<le> sh then int (m * 2 ^ nat sh) else int (m div 2 ^ nat (- sh))))"

section \<open>DownloadWorker.run\<close>

text \<open>
  The three signals of the worker, and the actions of \<open>run\<close> that the outside can see,
  in the order in which they happen.
\<close>

datatype signal = Progress int | Log_line string | Finished bool string

datatype effect = Emit signal | Mkdir path | Popen "string list" | Terminate | Wait

text \<open>
  What the outside gives to one run. Reading the child's output yields either a line,
  together with the value that the flag \<open>_stop\<close> has when the loop body starts on that
  line (the flag is set by the other thread), or an exception of the stream.
\<close>

datatype read_item = Line (stop_seen: bool) (line_text: string) | Read_error string

record world =
  mkdir_error :: "string option"
  popen_error :: "string option"
  proc_stdout :: "read_item list"
  returncode :: int

text \<open>
  The loop body after the test of the flag (source lines 164 to 172), on the variable
  \<open>percent\<close>: the effects and the new value of the variable. An exception of the
  conversion leaves the variable as it was and emits nothing.
\<close>

definition handle_line :: "int \<Rightarrow> string \<Rightarrow> effect list \<times> int" where
  "handle_line percent line0 =
     (let line = rstrip line0;
          fx = [Emit (Log_line line)]
      in case pat_search line of
           None \<Rightarrow> (fx, percent)
         | Some g \<Rightarrow>
             (case py_int_float (py_float_decimal g) of
                Inl e \<Rightarrow> (fx, percent)
              | Inr p \<Rightarrow> (fx @ [Emit (Progress (min (max p 0) 100))], p)))"

datatype loop_exit = Exhausted | Stopped | Raised string

fun read_lines :: "int \<Rightarrow> read_item list \<Rightarrow> effect list \<times> loop_exit" where
  "read_lines percent [] = ([], Exhausted)"
| "read_lines percent (Read_error e # rest) = ([], Raised e)"
| "read_lines percent (Line stop line # rest) =
     (if stop then ([Terminate], Stopped)
      else (case handle_line percent line of
              (fx, percent') \<Rightarrow>
                (case read_lines percent' rest of
                   (fx', ex) \<Rightarrow> (fx @ fx', ex))))"

text \<open>The logged form of one argument: quoted when it holds a space.\<close>

definition quote_arg :: "string \<Rightarrow> string" where
  "quote_arg c = (if CHR '' '' \<in> set c then [CHR 0x22] @ c @ [CHR 0x22] else c)"

text \<open>
  \<open>run\<close>: the effects, and the exception that leaves the method if there is one (only
  \<open>build_cmd\<close> is called outside a handler). An exit status is a machine integer, below
  every digit limit, so its text is \<open>show_int\<close> of it.
\<close>

definition run :: "py_env \<Rightarrow> world \<Rightarrow> DownloadConfig \<Rightarrow> effect list \<times> py_error option" where
  "run env w cfg =
     (if strip (url cfg) = []
      then ([Emit (Finished False ''URL is required.'')], None)
      else (case mkdir_error w of
              Some e \<Rightarrow>
                ([Mkdir (out_dir cfg),
                  Emit (Finished False (''Cannot create output folder: '' @ e))], None)
            | None \<Rightarrow>
                (case build_cmd env cfg of
                   Inl err \<Rightarrow> ([Mkdir (out_dir cfg)], Some err)
                 | Inr cmd \<Rightarrow>
                     (let fx = [Mkdir (out_dir cfg),
                                Emit (Log_line ''Command:''),
                                Emit (Log_line (join '' '' (map quote_arg cmd))),
                                Popen cmd]
                      in case popen_error w of
                           Some e \<Rightarrow>
                             (fx @ [Emit (Finished False (''Failed to start yt-dlp: '' @ e))], None)
                         | None \<Rightarrow>
                             (case read_lines 0 (proc_stdout w) of
                                (lfx, Stopped) \<Rightarrow>
                                  (fx @ lfx @ [Emit (Finished False ''Download canceled.'')], None)
                              | (lfx, Raised e) \<Rightarrow>
                                  (fx @ lfx @ [Emit (Finished False (''Error during download: '' @ e))],
                                   None)
                              | (lfx, Exhausted) \<Rightarrow>
                                  (fx @ lfx @ [Wait] @
                                   (if returncode w = 0
                                    then [Emit (Progress 100),
                                          Emit (Finished True ''Download completed.'')]
                                    else [Emit (Finished False
                                            (''yt-dlp exited with code '' @ show_int (returncode w) @ ''.''))]),
                                   None))))))"

section \<open>The window: validation, configuration, start and end of a download\<close>

text \<open>The contents of the input widgets that the three methods read.\<close>

record form =
  url_edit :: string
  mode_combo :: string
  video_quality_combo :: string
  video_container_combo :: string
  audio_format_combo :: string
  audio_bitrate_combo :: string
  sample_rate_combo :: string
  channels_combo :: string
  mp3_norm_check :: bool
  flac_slider :: int
  ogg_combo :: string
  m4a_combo :: string
  form_out_dir :: path
  allow_playlist_check :: bool
  force_single_check :: bool
  template_edit :: string
  ffmpeg_args :: string
  meta_artist_edit :: string
  meta_album_edit :: string
  meta_title_edit :: string

datatype ui_effect =
  Msg_critical string string
| Msg_information string string
| Append_log string
| Toggle_controls bool
| Clear_worker

text \<open>\<open>validate_inputs\<close>: the result, the dialog shown, and the form afterwards.\<close>

definition validate_inputs :: "form \<Rightarrow> bool \<times> ui_effect list \<times> form" where
  "validate_inputs f =
     (let u = strip (url_edit f)
      in if u = [] then (False, [Msg_critical ''Error'' ''URL is required.''], f)
         else if \<not> (startswith u ''http://'' \<or> startswith u ''https://'')
         then (False, [Msg_critical ''Error'' ''URL must start with http:// or https://''], f)
         else (let m = lower (mode_combo f);
                   rest = (if strip (template_edit f) = [] \<and> strip (meta_title_edit f) = []
                           then (True, [], f\<lparr>template_edit := DEFAULT_TEMPLATE\<rparr>)
                           else (True, [], f))
               in if m = ''video''
                  then (if video_quality_combo f \<notin> set VIDEO_QUALITIES
                        then (False, [Msg_critical ''Error'' ''Invalid video quality.''], f)
                        else if video_container_combo f \<notin> set VIDEO_CONTAINERS
                        then (False, [Msg_critical ''Error'' ''Invalid container.''], f)
                        else rest)
                  else (if audio_format_combo f \<notin> set AUDIO_FORMATS
                        then (False, [Msg_critical ''Error'' ''Invalid audio format.''], f)
                        else if audio_bitrate_combo f \<notin> set AUDIO_BITRATES
                        then (False, [Msg_critical ''Error'' ''Invalid bitrate.''], f)
                        else rest)))"

definition build_config :: "form \<Rightarrow> DownloadConfig" where
  "build_config f =
     \<lparr>url = strip (url_edit f),
      mode = lower (mode_combo f),
      video_quality = video_quality_combo f,
      video_container = lower (video_container_combo f),
      audio_format = lower (audio_format_combo f),
      audio_bitrate = audio_bitrate_combo f,
      sample_rate = strip (sample_rate_combo f),
      channels = channels_combo f,
      mp3_normalize = mp3_norm_check f,
      flac_comp_level = flac_slider f,
      ogg_quality = ogg_combo f,
      aac_profile = m4a_combo f,
      out_dir = form_out_dir f,
      allow_playlist = allow_playlist_check f,
      force_single = force_single_check f,
      name_template = (if strip (template_edit f) \<noteq> [] then strip (template_edit f)
                       else DEFAULT_TEMPLATE),
      ffmpeg_extra = strip (ffmpeg_args f),
      meta_artist = strip (meta_artist_edit f),
      meta_album = strip (meta_album_edit f),
      meta_title_override = strip (meta_title_edit f)\<rparr>"

text \<open>
  \<open>start_download\<close>, as far as the worker is concerned: the dialog of a failed
  validation and no worker, or the configuration handed to a new worker. The updates
  of the progress bars and of the log view are left out.
\<close>

definition start_download :: "form \<Rightarrow> ui_effect list \<times> DownloadConfig option" where
  "start_download f =
     (case validate_inputs f of
        (ok, fx, f') \<Rightarrow>
          if \<not> ok then (fx, None)
          else (fx @ [Toggle_controls True], Some (build_config f')))"

text \<open>The effects of the worker thread that a click on the start button leads to.\<close>

definition worker_effects :: "py_env \<Rightarrow> world \<Rightarrow> form \<Rightarrow> effect list" where
  "worker_effects env w f =
     (case snd (start_download f) of
        None \<Rightarrow> []
      | Some cfg \<Rightarrow> fst (run env w cfg))"

text \<open>\<open>on_finished\<close>, the slot of the signal \<open>finished\<close>.\<close>

definition on_finished :: "bool \<Rightarrow> string \<Rightarrow> ui_effect list" where
  "on_finished success msg =
     [Append_log msg, Toggle_controls False, Clear_worker] @
     (if success
      then [Msg_information ''Done'' ''Download completed successfully.'',
            Append_log ''Download finished successfully.'']
      else [Msg_critical ''Error'' msg, Append_log (''Error: '' @ msg)])"

section \<open>Inputs for evaluation\<close>

definition demo_env :: py_env where
  "demo_env =
     \<lparr>sys_executable = ''/usr/bin/python3'',
      path_join = (\<lambda>d n. d @ ''/'' @ n),
      int_max_str_digits = 4300\<rparr>"

definition demo_cfg :: DownloadConfig where
  "demo_cfg =
     \<lparr>url = ''https://example.org/v'', mode = ''video'', video_quality = ''1080p'',
      video_container = ''mp4'', audio_format = ''mp3'', audio_bitrate = ''192'',
      sample_rate = '''', channels = ''auto'', mp3_normalize = False, flac_comp_level = 5,
      ogg_quality = ''q5'', aac_profile = ''LC'', out_dir = ''/tmp/out'',
      allow_playlist = True, force_single = False, name_template = ''%(title)s.%(ext)s'',
      ffmpeg_extra = '''', meta_artist = '''', meta_album = '''', meta_title_override = ''''\<rparr>"

definition demo_world :: world where
  "demo_world =
     \<lparr>mkdir_error = None, popen_error = None,
      proc_stdout = [Line False ''[download]  42.7% of 10MiB'', Line False ''[download] 100% of 10MiB''],
      returncode = 0\<rparr>"

definition demo_form :: form where
  "demo_form =
     \<lparr>url_edit = '' https://example.org/v '', mode_combo = ''Video'',
      video_quality_combo = ''Best'', video_container_combo = ''mp4'',
      audio_format_combo = ''mp3'', audio_bitrate_combo = ''192'', sample_rate_combo = '''',
      channels_combo = ''auto'', mp3_norm_check = False, flac_slider = 5, ogg_combo = ''q5'',
      m4a_combo = ''LC'', form_out_dir = ''/tmp/out'', allow_playlist_check = False,
      force_single_check = False, template_edit = '''', ffmpeg_args = '''',
      meta_artist_edit = '''', meta_album_edit = '''', meta_title_edit = ''''\<rparr>"

definition demo_audio_cfg :: DownloadConfig where
  "demo_audio_cfg =
     demo_cfg\<lparr>mode := ''audio'', audio_format := ''FLAC'', meta_artist := '' A B '',
              meta_title_override := '' My Song '', sample_rate := ''44100'',
              channels := ''mono'', ffmpeg_extra := '' -x y ''\<rparr>"

definition demo_ogg_cfg :: DownloadConfig where
  "demo_ogg_cfg =
     demo_cfg\<lparr>mode := ''audio'', audio_format := ''ogg'', ogg_quality := ''7'',
              sample_rate := ''44k'', channels := ''stereo''\<rparr>"

definition demo_cancel_world :: world where
  "demo_cancel_world =
     \<lparr>mkdir_error = None, popen_error = None,
      proc_stdout = [Line False ''[download]  99.0% of 10MiB'', Line True ''[download] 100% of 10MiB''],
      returncode = 0\<rparr>"

section \<open>Shape of the command\<close>

lemma build_cmd_Inr:
  "build_cmd env cfg = Inr cmd \<longleftrightarrow>
   (\<exists>ff. ff_args_of env cfg = Inr ff \<and>
      cmd = [sys_executable env, ''-m'', ''yt_dlp'', ''--newline'',
             if allow_playlist cfg \<and> \<not> force_single cfg then ''--yes-playlist'' else ''--no-playlist'',
             ''-o'', out_template env cfg]
            @ (if ff \<noteq> [] then [''--postprocessor-args'', join '' '' ff] else [])
            @ format_args cfg @ [strip (url cfg)])"
  by (cases "ff_args_of env cfg") (auto simp: build_cmd_def Let_def)


lemma demo_cmd:
  "build_cmd demo_env demo_cfg =
     Inr [''/usr/bin/python3'', ''-m'', ''yt_dlp'', ''--newline'', ''--yes-playlist'',
          ''-o'', ''/tmp/out/%(title)s.%(ext)s'',
          ''-f'', ''bestvideo[height<=1080]+bestaudio/best[height<=1080]'',
          ''--merge-output-format'', ''mp4'', ''https://example.org/v'']"
  by code_simp

lemma demo_cmd_best:
  "build_cmd demo_env (demo_cfg\<lparr>video_quality := ''Best'', force_single := True\<rparr>) =
     Inr [''/usr/bin/python3'', ''-m'', ''yt_dlp'', ''--newline'', ''--no-playlist'',
          ''-o'', ''/tmp/out/%(title)s.%(ext)s'',
          ''-f'', ''bestvideo+bestaudio/best'',
          ''--merge-output-format'', ''mp4'', ''https://example.org/v'']"
  by code_simp

section \<open>The character classes beyond ASCII\<close>

text \<open>
  The classes on some code points above U+007F: the no-break space and the next-line
  character are white space for \<open>strip\<close>, \<open>rstrip\<close> and the pattern; the superscript two
  is a digit for \<open>str.isdigit\<close> but not for the pattern; the capitals and small letters
  of Latin-1 have a case, and the upper case of the sharp s is \<open>SS\<close>.
\<close>

lemma latin1_strip:
  "strip [CHR 0xA0] = []"
  "strip ([CHR 0xA0] @ ''A'' @ [CHR 0x85]) = ''A''"
  "rstrip (''x'' @ [CHR 0xA0]) = ''x''"
  by code_simp+

lemma latin1_isdigit:
  "isdigit [CHR 0xB2]" "isdigit ''44100''" "\<not> isdigit [CHR 0xBC]" "\<not> isdecimal_char (CHR 0xB2)"
  by code_simp+

lemma latin1_case:
  "lower [CHR 0xC0] = [CHR 0xE0]" "lower [CHR 0xD7] = [CHR 0xD7]" "lower ''Q7'' = ''q7''"
  "upper [CHR 0xE9] = code_points [CHR 0xC9]" "upper [CHR 0xDF] = code_points ''SS''"
  "upper [CHR 0xFF] = [0x178]" "upper [CHR 0xB5] = [0x39C]" "upper ''he'' = code_points ''HE''"
  by code_simp+

lemma latin1_pattern:
  "pat_search (''[download]'' @ [CHR 0xA0] @ ''42%'') = Some ''42''"
  "pat_search (''[download] '' @ [CHR 0xB2] @ ''%'') = None"
  by code_simp+

lemma latin1_build_cmd:
  "ff_args_of demo_env (demo_cfg\<lparr>meta_artist := [CHR 0xA0]\<rparr>) = Inr []"
  "ff_args_of demo_env (demo_cfg\<lparr>meta_artist := [CHR 0xA0] @ ''A'' @ [CHR 0x85]\<rparr>)
     = Inr [''-metadata'', ''artist=A'']"
  "out_template demo_env (demo_cfg\<lparr>meta_title_override := [CHR 0xA0]\<rparr>) = ''/tmp/out/%(title)s.%(ext)s''"
  by code_simp+

lemma latin1_url:
  "run demo_env demo_world (demo_cfg\<lparr>url := [CHR 0xA0]\<rparr>) =
     ([Emit (Finished False ''URL is required.'')], None)"
  "start_download (demo_form\<lparr>url_edit := [CHR 0xA0]\<rparr>) =
     ([Msg_critical ''Error'' ''URL is required.''], None)"
  "fst (validate_inputs (demo_form\<lparr>url_edit := [CHR 0xA0] @ ''https://example.org/v''\<rparr>))"
  "url (build_config (demo_form\<lparr>url_edit := [CHR 0xA0] @ ''https://example.org/v''\<rparr>)) =
     ''https://example.org/v''"
proof -
  have "strip (url (demo_cfg\<lparr>url := [CHR 0xA0]\<rparr>)) = []"
    by code_simp
  then show "run demo_env demo_world (demo_cfg\<lparr>url := [CHR 0xA0]\<rparr>) =
     ([Emit (Finished False ''URL is required.'')], None)"
    by (simp add: run_def)
qed code_simp+

section \<open>The playlist flag\<close>

text \<open>
  C8. The fifth argument of every command is the playlist flag: it is
  \<open>--yes-playlist\<close> if and only if \<open>allow_playlist\<close> is true and \<open>force_single\<close> is
  false, and \<open>--no-playlist\<close> in every other case. The four arguments before it are
  fixed, so the flag is always at this place.
\<close>

theorem C8_playlist_flag:
  "build_cmd env cfg = Inr cmd \<Longrightarrow>
   4 < length cmd \<and> take 4 cmd = [sys_executable env, ''-m'', ''yt_dlp'', ''--newline''] \<and>
   (cmd ! 4 = ''--yes-playlist'' \<longleftrightarrow> allow_playlist cfg \<and> \<not> force_single cfg) \<and>
   (cmd ! 4 = ''--no-playlist'' \<longleftrightarrow> \<not> (allow_playlist cfg \<and> \<not> force_single cfg))"
  unfolding build_cmd_Inr by (auto split: if_splits)

theorem C8_playlist_flag_witness:
  "(\<exists>cmd. build_cmd demo_env demo_cfg = Inr cmd \<and> cmd ! 4 = ''--yes-playlist'')
   \<and> allow_playlist demo_cfg \<and> \<not> force_single demo_cfg
   \<and> (\<exists>cmd. build_cmd demo_env (demo_cfg\<lparr>video_quality := ''Best'', force_single := True\<rparr>) = Inr cmd
         \<and> cmd ! 4 = ''--no-playlist'')"
proof -
  have a: "allow_playlist demo_cfg \<and> \<not> force_single demo_cfg"
    by (simp add: demo_cfg_def)
  have f: "force_single (demo_cfg\<lparr>video_quality := ''Best'', force_single := True\<rparr>)"
    by simp
  have 1: "\<exists>cmd. build_cmd demo_env demo_cfg = Inr cmd \<and> cmd ! 4 = ''--yes-playlist''"
    using C8_playlist_flag [OF demo_cmd] demo_cmd a by blast
  have 2: "\<exists>cmd. build_cmd demo_env (demo_cfg\<lparr>video_quality := ''Best'', force_single := True\<rparr>) = Inr cmd
         \<and> cmd ! 4 = ''--no-playlist''"
    using C8_playlist_flag [OF demo_cmd_best] demo_cmd_best f by blast
  show ?thesis
    using 1 2 a by blast
qed

section \<open>The format selector of a video request\<close>



section \<open>The inactive group of fields\<close>

text \<open>
  C3. Two configurations with the same mode that agree on the URL, the output
  directory, the two playlist switches, the filename template, the extra arguments and
  the three metadata fields, and on the audio fields when the mode is \<open>audio\<close> or on the
  two video fields otherwise, give the same result of \<open>build_cmd\<close>: the fields of the
  other group are never read.
\<close>

theorem C3_inactive_group_ignored:
  assumes "mode a = mode b" "url a = url b" "out_dir a = out_dir b"
    "allow_playlist a = allow_playlist b" "force_single a = force_single b"
    "name_template a = name_template b" "ffmpeg_extra a = ffmpeg_extra b"
    "meta_artist a = meta_artist b" "meta_album a = meta_album b"
    "meta_title_override a = meta_title_override b"
    "mode a = ''audio'' \<Longrightarrow>
       audio_format a = audio_format b \<and> audio_bitrate a = audio_bitrate b \<and>
       sample_rate a = sample_rate b \<and> channels a = channels b \<and>
       mp3_normalize a = mp3_normalize b \<and> flac_comp_level a = flac_comp_level b \<and>
       ogg_quality a = ogg_quality b \<and> aac_profile a = aac_profile b"
    "mode a \<noteq> ''audio'' \<Longrightarrow>
       video_quality a = video_quality b \<and> video_container a = video_container b"
  shows "build_cmd env a = build_cmd env b"
proof -
  have meta: "ff_args_meta a = ff_args_meta b"
    using assms(8-10) by (simp add: ff_args_meta_def)
  have tmpl: "out_template env a = out_template env b"
    using assms(3,6,10) by (simp add: out_template_def)
  have ff: "ff_args_of env a = ff_args_of env b"
  proof (cases "mode a = ''audio''")
    case True
    with assms(11) have eqs: "audio_format a = audio_format b" "sample_rate a = sample_rate b"
       "channels a = channels b" "mp3_normalize a = mp3_normalize b"
       "flac_comp_level a = flac_comp_level b" "ogg_quality a = ogg_quality b"
       "aac_profile a = aac_profile b"
      by simp_all
    have audio: "ff_args_audio env a xs = ff_args_audio env b xs" for xs
      unfolding ff_args_audio_def eqs by (rule refl)
    show ?thesis
      unfolding ff_args_of_def audio assms(1) assms(7) meta by (rule refl)
  next
    case False
    then have nb: "mode b \<noteq> ''audio''"
      using assms(1) by simp
    show ?thesis
      unfolding ff_args_of_def assms(1) assms(7) meta using nb by simp
  qed
  have fmt: "format_args a = format_args b"
  proof (cases "mode a = ''audio''")
    case True
    with assms(11) have eqs: "audio_format a = audio_format b" "audio_bitrate a = audio_bitrate b"
      by simp_all
    from True have tb: "mode b = ''audio''"
      using assms(1) by simp
    show ?thesis
      unfolding format_args_def assms(1) eqs using tb by simp
  next
    case False
    with assms(12) have eqs: "video_quality a = video_quality b" "video_container a = video_container b"
      by simp_all
    from False have nb: "mode b \<noteq> ''audio''"
      using assms(1) by simp
    show ?thesis
      unfolding format_args_def assms(1) eqs using nb by simp
  qed
  show ?thesis
    unfolding build_cmd_def ff fmt tmpl assms(2) assms(4) assms(5) by (rule refl)
qed

theorem C3_inactive_group_ignored_witness:
  "build_cmd demo_env
     (demo_cfg\<lparr>audio_format := ''flac'', audio_bitrate := ''320'', sample_rate := ''48000'',
               channels := ''mono'', mp3_normalize := True, flac_comp_level := 8,
               ogg_quality := ''q9'', aac_profile := ''HE''\<rparr>)
   = build_cmd demo_env demo_cfg
   \<and> mode demo_cfg \<noteq> ''audio''
   \<and> build_cmd demo_env (demo_cfg\<lparr>mode := ''audio'', video_quality := ''360p'', video_container := ''webm''\<rparr>)
   = build_cmd demo_env (demo_cfg\<lparr>mode := ''audio''\<rparr>)"
proof -
  have "build_cmd demo_env
     (demo_cfg\<lparr>audio_format := ''flac'', audio_bitrate := ''320'', sample_rate := ''48000'',
               channels := ''mono'', mp3_normalize := True, flac_comp_level := 8,
               ogg_quality := ''q9'', aac_profile := ''HE''\<rparr>)
   = build_cmd demo_env demo_cfg"
    by (rule C3_inactive_group_ignored) (simp_all add: demo_cfg_def)
  moreover have "build_cmd demo_env
       (demo_cfg\<lparr>mode := ''audio'', video_quality := ''360p'', video_container := ''webm''\<rparr>)
     = build_cmd demo_env (demo_cfg\<lparr>mode := ''audio''\<rparr>)"
    by (rule C3_inactive_group_ignored) (simp_all add: demo_cfg_def)
  moreover have "mode demo_cfg \<noteq> ''audio''"
    by (simp add: demo_cfg_def)
  ultimately show ?thesis by simp
qed

section \<open>Auxiliary facts about the transcoder arguments\<close>

lemma show_nat_nonempty: "show_nat n \<noteq> []"
  by (subst show_nat.simps) simp

lemma length_show_nat: "0 < k \<Longrightarrow> length (show_nat n) \<le> k \<longleftrightarrow> n < 10 ^ k"
proof (induction n arbitrary: k rule: show_nat.induct)
  case (1 n)
  show ?case
  proof (cases "n < 10")
    case True
    have "(10::nat) ^ 1 \<le> 10 ^ k"
      using 1(2) by (intro power_increasing) simp_all
    with True have "n < 10 ^ k" by simp
    with True 1(2) show ?thesis by (simp add: show_nat.simps [of n])
  next
    case False
    then obtain j where k: "k = Suc j \<or> k = 0" by (cases k) auto
    show ?thesis
    proof (cases "k = 1")
      case True
      with False show ?thesis by (simp add: show_nat.simps [of n] show_nat_nonempty)
    next
      case k1: False
      with 1(2) obtain j where j: "k = Suc j" "0 < j" by (cases k) auto
      have "length (show_nat (n div 10)) \<le> j \<longleftrightarrow> n div 10 < 10 ^ j"
        using 1(1) [OF False j(2)] .
      moreover have "n div 10 < 10 ^ j \<longleftrightarrow> n < 10 ^ Suc j"
        by (simp add: div_less_iff_less_mult mult.commute)
      ultimately show ?thesis
        using False j by (simp add: show_nat.simps [of n])
    qed
  qed
qed

lemma ff_args_meta_eq:
  "ff_args_meta cfg =
     (if strip (meta_artist cfg) \<noteq> [] then [''-metadata'', ''artist='' @ strip (meta_artist cfg)] else [])
   @ (if strip (meta_album cfg) \<noteq> [] then [''-metadata'', ''album='' @ strip (meta_album cfg)] else [])
   @ (if strip (meta_title_override cfg) \<noteq> [] then [''-metadata'', ''title='' @ strip (meta_title_override cfg)] else [])"
  by (simp add: ff_args_meta_def)

lemma ff_args_audio_eq:
  "ff_args_audio env cfg xs =
     (if lower (audio_format cfg) = ''flac'' \<and> 0 < int_max_str_digits env
         \<and> int_max_str_digits env < length (show_nat (nat \<bar>flac_comp_level cfg\<bar>))
      then Inl ValueError
      else Inr (xs
        @ (if lower (audio_format cfg) = ''mp3'' \<and> mp3_normalize cfg then [''-filter:a'', ''loudnorm''] else [])
        @ (if lower (audio_format cfg) = ''flac'' then [''-compression_level'', show_int (flac_comp_level cfg)] else [])
        @ (if (lower (audio_format cfg) = ''ogg'' \<or> lower (audio_format cfg) = ''opus'')
               \<and> startswith (lower (ogg_quality cfg)) ''q''
           then [''-q:a'', drop 1 (lower (ogg_quality cfg))] else [])
        @ (if lower (audio_format cfg) = ''m4a'' \<and> upper (aac_profile cfg) = code_points ''LC''
           then [''-profile:a'', ''aac_low'']
           else if lower (audio_format cfg) = ''m4a'' \<and> upper (aac_profile cfg) = code_points ''HE''
           then [''-profile:a'', ''aac_he''] else [])
        @ (if isdigit (sample_rate cfg) then [''-ar'', sample_rate cfg] else [])
        @ (if channels cfg = ''mono'' then [''-ac'', ''1'']
           else if channels cfg = ''stereo'' then [''-ac'', ''2''] else [])))"
  by (simp add: ff_args_audio_def py_str_int_def Let_def isdigit_def)


lemma ff_args_of_eq:
  "ff_args_of env cfg =
     (if mode cfg = ''audio'' \<and> lower (audio_format cfg) = ''flac'' \<and> 0 < int_max_str_digits env
         \<and> int_max_str_digits env < length (show_nat (nat \<bar>flac_comp_level cfg\<bar>))
      then Inl ValueError
      else Inr (ff_args_meta cfg
        @ (if mode cfg = ''audio'' then
            (if lower (audio_format cfg) = ''mp3'' \<and> mp3_normalize cfg then [''-filter:a'', ''loudnorm''] else [])
          @ (if lower (audio_format cfg) = ''flac'' then [''-compression_level'', show_int (flac_comp_level cfg)] else [])
          @ (if (lower (audio_format cfg) = ''ogg'' \<or> lower (audio_format cfg) = ''opus'')
                 \<and> startswith (lower (ogg_quality cfg)) ''q''
             then [''-q:a'', drop 1 (lower (ogg_quality cfg))] else [])
          @ (if lower (audio_format cfg) = ''m4a'' \<and> upper (aac_profile cfg) = code_points ''LC''
             then [''-profile:a'', ''aac_low'']
             else if lower (audio_format cfg) = ''m4a'' \<and> upper (aac_profile cfg) = code_points ''HE''
             then [''-profile:a'', ''aac_he''] else [])
          @ (if isdigit (sample_rate cfg) then [''-ar'', sample_rate cfg] else [])
          @ (if channels cfg = ''mono'' then [''-ac'', ''1'']
             else if channels cfg = ''stereo'' then [''-ac'', ''2''] else [])
           else [])
        @ (if strip (ffmpeg_extra cfg) \<noteq> [] then [strip (ffmpeg_extra cfg)] else [])))"
proof (cases "mode cfg = ''audio''")
  case True
  let ?C = "lower (audio_format cfg) = ''flac'' \<and> 0 < int_max_str_digits env
         \<and> int_max_str_digits env < length (show_nat (nat \<bar>flac_comp_level cfg\<bar>))"
  show ?thesis
  proof (cases ?C)
    case c: True
    have 1: "mode cfg = ''audio'' \<and> ?C"
      using True c by blast
    show ?thesis
      unfolding ff_args_of_def ff_args_audio_eq if_P [OF True] if_P [OF c] if_P [OF 1] by simp
  next
    case c: False
    have 1: "\<not> (mode cfg = ''audio'' \<and> ?C)"
      using c by blast
    show ?thesis
      unfolding ff_args_of_def ff_args_audio_eq if_P [OF True] if_not_P [OF c] if_not_P [OF 1]
      by (cases "strip (ffmpeg_extra cfg) = []") (simp_all split del: if_split)
  qed
next
  case False
  then show ?thesis
    by (simp add: ff_args_of_def)
qed

lemma digits_limit:
  "(0 < k \<and> k < length (show_nat (nat \<bar>n\<bar>))) \<longleftrightarrow> \<not> (k = 0 \<or> \<bar>n\<bar> < 10 ^ k)"
proof (cases "k = 0")
  case True
  then show ?thesis by simp
next
  case False
  then have "length (show_nat (nat \<bar>n\<bar>)) \<le> k \<longleftrightarrow> nat \<bar>n\<bar> < 10 ^ k"
    by (intro length_show_nat) simp
  moreover have "nat \<bar>n\<bar> < 10 ^ k \<longleftrightarrow> \<bar>n\<bar> < 10 ^ k"
    by (metis abs_ge_zero nat_less_iff of_nat_numeral of_nat_power)
  ultimately show ?thesis
    using False by auto
qed

lemma hd_ok_append:
  "xs = [] \<or> hd xs \<noteq> [] \<Longrightarrow> ys = [] \<or> hd ys \<noteq> [] \<Longrightarrow> xs @ ys = [] \<or> hd (xs @ ys) \<noteq> []"
  by (cases xs) auto

lemma join_eq_Nil: "sep \<noteq> [] \<Longrightarrow> join sep xs = [] \<longleftrightarrow> xs = [] \<or> xs = [[]]"
  by (induction sep xs rule: join.induct) auto

lemma join_nonempty:
  "sep \<noteq> [] \<Longrightarrow> xs = [] \<or> hd xs \<noteq> [] \<Longrightarrow> join sep xs \<noteq> [] \<longleftrightarrow> xs \<noteq> []"
  by (auto simp: join_eq_Nil)

lemma flac_level_overflow:
  assumes k: "int_max_str_digits env = k" "0 < k" "k \<le> n"
    and c: "mode cfg = ''audio''" "audio_format cfg = ''flac''" "flac_comp_level cfg = 10 ^ n"
  shows "build_cmd env cfg = Inl ValueError"
proof -
  have l: "lower (audio_format cfg) = ''flac''"
    unfolding c(2) by code_simp
  have "(10::int) ^ k \<le> 10 ^ n"
    using k(3) by (intro power_increasing) simp_all
  then have "\<not> (k = 0 \<or> \<bar>(10::int) ^ n\<bar> < 10 ^ k)"
    using k(2) by (simp add: not_less)
  then have "0 < int_max_str_digits env
         \<and> int_max_str_digits env < length (show_nat (nat \<bar>flac_comp_level cfg\<bar>))"
    unfolding digits_limit c(3) k(1) .
  then have "ff_args_of env cfg = Inl ValueError"
    unfolding ff_args_of_eq [of env cfg] using l c(1) by simp
  then show ?thesis
    by (simp add: build_cmd_def)
qed

lemma abs_less_pow10: "\<bar>n\<bar> < 10 \<Longrightarrow> 0 < k \<Longrightarrow> \<bar>n::int\<bar> < 10 ^ k"
proof -
  assume a: "\<bar>n\<bar> < 10" and k: "0 < k"
  have "(10::int) ^ 1 \<le> 10 ^ k"
    using k by (intro power_increasing) simp_all
  with a show ?thesis by simp
qed

lemma demo_audio_cmd:
  "build_cmd demo_env demo_audio_cfg =
     Inr [''/usr/bin/python3'', ''-m'', ''yt_dlp'', ''--newline'', ''--yes-playlist'',
          ''-o'', ''/tmp/out/My Song.%(ext)s'',
          ''--postprocessor-args'',
          ''-metadata artist=A B -metadata title=My Song -compression_level 5 -ar 44100 -ac 1 -x y'',
          ''-f'', ''bestaudio/best'', ''--extract-audio'', ''--audio-format'', ''flac'',
          ''--audio-quality'', ''192k'', ''https://example.org/v'']"
  by code_simp

section \<open>The transcoder argument string\<close>

text \<open>
  C6. When \<open>build_cmd\<close> returns a command, the list \<open>ff_args\<close> is the concatenation, in
  this order, of: the artist pair if the trimmed artist is not empty, the album pair
  likewise, the title pair if the trimmed title override is not empty; in audio mode
  only, the loudness filter for mp3 with normalisation, the compression level for flac,
  the quality for ogg or opus when the lower-cased quality starts with \<open>q\<close> (the rest
  after that letter is passed), the profile for m4a (\<open>LC\<close> gives \<open>aac_low\<close>, \<open>HE\<close> gives
  \<open>aac_he\<close>), the sample rate when \<open>str.isdigit\<close> holds for it, the channel count for \<open>mono\<close> or
  \<open>stereo\<close>; and last the trimmed extra arguments as one token if not empty. The string
  joined with spaces is empty exactly when the list is empty, and the command holds
  \<open>--postprocessor-args\<close> with that string, after the output template and before the
  format selection, exactly when the string is not empty.
\<close>

theorem C6_transcoder_args_order:
  fixes env :: py_env and cfg :: DownloadConfig
  defines "fmt \<equiv> lower (audio_format cfg)"
  defines "artist \<equiv> (if strip (meta_artist cfg) \<noteq> []
                      then [''-metadata'', ''artist='' @ strip (meta_artist cfg)] else [])"
  defines "album \<equiv> (if strip (meta_album cfg) \<noteq> []
                     then [''-metadata'', ''album='' @ strip (meta_album cfg)] else [])"
  defines "title \<equiv> (if strip (meta_title_override cfg) \<noteq> []
                     then [''-metadata'', ''title='' @ strip (meta_title_override cfg)] else [])"
  defines "mp3 \<equiv> (if fmt = ''mp3'' \<and> mp3_normalize cfg then [''-filter:a'', ''loudnorm''] else [])"
  defines "flac \<equiv> (if fmt = ''flac''
                    then [''-compression_level'', show_int (flac_comp_level cfg)] else [])"
  defines "ogg \<equiv> (if (fmt = ''ogg'' \<or> fmt = ''opus'') \<and> startswith (lower (ogg_quality cfg)) ''q''
                   then [''-q:a'', drop 1 (lower (ogg_quality cfg))] else [])"
  defines "m4a \<equiv> (if fmt = ''m4a'' \<and> upper (aac_profile cfg) = code_points ''LC'' then [''-profile:a'', ''aac_low'']
                   else if fmt = ''m4a'' \<and> upper (aac_profile cfg) = code_points ''HE'' then [''-profile:a'', ''aac_he'']
                   else [])"
  defines "rate \<equiv> (if isdigit (sample_rate cfg) then [''-ar'', sample_rate cfg] else [])"
  defines "chan \<equiv> (if channels cfg = ''mono'' then [''-ac'', ''1'']
                    else if channels cfg = ''stereo'' then [''-ac'', ''2''] else [])"
  defines "audio \<equiv> (if mode cfg = ''audio'' then mp3 @ flac @ ogg @ m4a @ rate @ chan else [])"
  defines "extra \<equiv> (if strip (ffmpeg_extra cfg) \<noteq> [] then [strip (ffmpeg_extra cfg)] else [])"
  defines "tokens \<equiv> artist @ album @ title @ audio @ extra"
  assumes ok: "build_cmd env cfg = Inr cmd"
  shows "ff_args_of env cfg = Inr tokens
       \<and> (join '' '' tokens \<noteq> [] \<longleftrightarrow> tokens \<noteq> [])
       \<and> cmd = [sys_executable env, ''-m'', ''yt_dlp'', ''--newline'',
                if allow_playlist cfg \<and> \<not> force_single cfg then ''--yes-playlist'' else ''--no-playlist'',
                ''-o'', out_template env cfg]
               @ (if join '' '' tokens \<noteq> [] then [''--postprocessor-args'', join '' '' tokens] else [])
               @ format_args cfg @ [strip (url cfg)]"
proof -
  from ok obtain ff where ff: "ff_args_of env cfg = Inr ff"
    and cmd: "cmd = [sys_executable env, ''-m'', ''yt_dlp'', ''--newline'',
                if allow_playlist cfg \<and> \<not> force_single cfg then ''--yes-playlist'' else ''--no-playlist'',
                ''-o'', out_template env cfg]
               @ (if ff \<noteq> [] then [''--postprocessor-args'', join '' '' ff] else [])
               @ format_args cfg @ [strip (url cfg)]"
    unfolding build_cmd_Inr by blast
  have T: "ff_args_of env cfg =
      (if mode cfg = ''audio'' \<and> lower (audio_format cfg) = ''flac'' \<and> 0 < int_max_str_digits env
         \<and> int_max_str_digits env < length (show_nat (nat \<bar>flac_comp_level cfg\<bar>))
       then Inl ValueError else Inr tokens)"
    unfolding ff_args_of_eq ff_args_meta_eq tokens_def audio_def extra_def chan_def
      rate_def m4a_def ogg_def flac_def mp3_def title_def album_def artist_def fmt_def append_assoc
    by (rule refl)
  have tok: "ff = tokens"
    using ff unfolding T by (simp split: if_split_asm)
  have h1: "artist = [] \<or> hd artist \<noteq> []" unfolding artist_def by simp
  have h2: "album = [] \<or> hd album \<noteq> []" unfolding album_def by simp
  have h3: "title = [] \<or> hd title \<noteq> []" unfolding title_def by simp
  have h4: "mp3 = [] \<or> hd mp3 \<noteq> []" unfolding mp3_def by simp
  have h5: "flac = [] \<or> hd flac \<noteq> []" unfolding flac_def by simp
  have h6: "ogg = [] \<or> hd ogg \<noteq> []" unfolding ogg_def by simp
  have h7: "m4a = [] \<or> hd m4a \<noteq> []" unfolding m4a_def by simp
  have h8: "rate = [] \<or> hd rate \<noteq> []" unfolding rate_def by simp
  have h9: "chan = [] \<or> hd chan \<noteq> []" unfolding chan_def by simp
  have h10: "extra = [] \<or> hd extra \<noteq> []" unfolding extra_def by simp
  have "mp3 @ flac @ ogg @ m4a @ rate @ chan = [] \<or> hd (mp3 @ flac @ ogg @ m4a @ rate @ chan) \<noteq> []"
    by (intro hd_ok_append h4 h5 h6 h7 h8 h9)
  then have h11: "audio = [] \<or> hd audio \<noteq> []"
    unfolding audio_def by (cases "mode cfg = ''audio''") simp_all
  have "tokens = [] \<or> hd tokens \<noteq> []"
    unfolding tokens_def by (intro hd_ok_append h1 h2 h3 h11 h10)
  then have j: "join '' '' tokens \<noteq> [] \<longleftrightarrow> tokens \<noteq> []"
    by (intro join_nonempty) simp_all
  show ?thesis
    using ff cmd j unfolding tok by simp
qed

theorem C6_transcoder_args_order_witness:
  "build_cmd demo_env demo_audio_cfg =
     Inr [''/usr/bin/python3'', ''-m'', ''yt_dlp'', ''--newline'', ''--yes-playlist'',
          ''-o'', ''/tmp/out/My Song.%(ext)s'',
          ''--postprocessor-args'',
          ''-metadata artist=A B -metadata title=My Song -compression_level 5 -ar 44100 -ac 1 -x y'',
          ''-f'', ''bestaudio/best'', ''--extract-audio'', ''--audio-format'', ''flac'',
          ''--audio-quality'', ''192k'', ''https://example.org/v'']
   \<and> ff_args_of demo_env demo_audio_cfg =
     Inr [''-metadata'', ''artist=A B'', ''-metadata'', ''title=My Song'',
          ''-compression_level'', ''5'', ''-ar'', ''44100'', ''-ac'', ''1'', ''-x y'']"
proof -
  note r = C6_transcoder_args_order [OF demo_audio_cmd, THEN conjunct1]
  have "ff_args_of demo_env demo_audio_cfg =
     Inr [''-metadata'', ''artist=A B'', ''-metadata'', ''title=My Song'',
          ''-compression_level'', ''5'', ''-ar'', ''44100'', ''-ac'', ''1'', ''-x y'']"
    using r
    by (simp add: demo_audio_cfg_def demo_cfg_def strip_def rstrip_def lstrip_def isspace_def
        py_whitespace_def lower_def lower_char_def upper_def upper_char_def code_point_def
        code_points_def char_of_def bit_iff_odd isdigit_def
        isdigit_char_def isdecimal_char_def startswith_def show_int_def show_nat.simps digit_char_def)
  with demo_audio_cmd show ?thesis by simp
qed

section \<open>The output template\<close>

text \<open>
  C7, as the code has it. The seventh argument of every command, after \<open>-o\<close>, is the
  output template. If the title override is not blank, the template is the output
  directory joined with the trimmed title override followed by \<open>.%(ext)s\<close>, whatever
  the filename template is. If the title override is blank, the template is the output
  directory joined with the filename template when that is not blank, and with the
  default pattern \<open>%(title)s.%(ext)s\<close> when it is the empty string. Blank means empty
  after trimming.
\<close>

theorem C7_output_template_amended:
  assumes "build_cmd env cfg = Inr cmd"
  shows "6 < length cmd \<and> cmd ! 5 = ''-o''
       \<and> (strip (meta_title_override cfg) \<noteq> [] \<longrightarrow>
            cmd ! 6 = path_join env (out_dir cfg) (strip (meta_title_override cfg) @ ''.%(ext)s''))
       \<and> (strip (meta_title_override cfg) = [] \<and> strip (name_template cfg) \<noteq> [] \<longrightarrow>
            cmd ! 6 = path_join env (out_dir cfg) (name_template cfg))
       \<and> (strip (meta_title_override cfg) = [] \<and> name_template cfg = [] \<longrightarrow>
            cmd ! 6 = path_join env (out_dir cfg) ''%(title)s.%(ext)s'')"
proof -
  have "strip [] = []"
    by (simp add: strip_def rstrip_def lstrip_def)
  then have "strip (name_template cfg) \<noteq> [] \<Longrightarrow> name_template cfg \<noteq> []"
    by auto
  then show ?thesis
    using assms unfolding build_cmd_Inr by (auto simp: out_template_def DEFAULT_TEMPLATE_def)
qed

theorem C7_output_template_amended_witness:
  "build_cmd demo_env demo_audio_cfg =
     Inr [''/usr/bin/python3'', ''-m'', ''yt_dlp'', ''--newline'', ''--yes-playlist'',
          ''-o'', ''/tmp/out/My Song.%(ext)s'',
          ''--postprocessor-args'',
          ''-metadata artist=A B -metadata title=My Song -compression_level 5 -ar 44100 -ac 1 -x y'',
          ''-f'', ''bestaudio/best'', ''--extract-audio'', ''--audio-format'', ''flac'',
          ''--audio-quality'', ''192k'', ''https://example.org/v'']
   \<and> strip (meta_title_override demo_audio_cfg) = ''My Song''
   \<and> path_join demo_env (out_dir demo_audio_cfg) (''My Song'' @ ''.%(ext)s'') = ''/tmp/out/My Song.%(ext)s''
   \<and> strip (meta_title_override demo_cfg) = []
   \<and> strip (name_template demo_cfg) = ''%(title)s.%(ext)s''
   \<and> path_join demo_env (out_dir demo_cfg) (name_template demo_cfg) = ''/tmp/out/%(title)s.%(ext)s''"
proof -
  have t: "strip (meta_title_override demo_audio_cfg) = ''My Song''"
    by code_simp
  have p: "path_join demo_env (out_dir demo_audio_cfg) (''My Song'' @ ''.%(ext)s'') = ''/tmp/out/My Song.%(ext)s''"
    by code_simp
  have u: "strip (meta_title_override demo_cfg) = []"
    by code_simp
  have n: "strip (name_template demo_cfg) = ''%(title)s.%(ext)s''"
    by code_simp
  from C7_output_template_amended [OF demo_audio_cmd] C7_output_template_amended [OF demo_cmd]
  show ?thesis
    using demo_audio_cmd t p u n by simp
qed

text \<open>
  As the specification words it, the property fails twice. A title override with white
  space around it is trimmed, so the template does not hold the title override as given;
  and a filename template of white space only is blank but not empty, and is used
  instead of the default pattern.
\<close>

theorem C7_output_template_counterexample:
  "build_cmd demo_env (demo_cfg\<lparr>meta_title_override := '' a ''\<rparr>) =
     Inr [''/usr/bin/python3'', ''-m'', ''yt_dlp'', ''--newline'', ''--yes-playlist'',
          ''-o'', ''/tmp/out/a.%(ext)s'',
          ''--postprocessor-args'', ''-metadata title=a'',
          ''-f'', ''bestvideo[height<=1080]+bestaudio/best[height<=1080]'',
          ''--merge-output-format'', ''mp4'', ''https://example.org/v'']
   \<and> ''/tmp/out/a.%(ext)s'' \<noteq> path_join demo_env (out_dir demo_cfg) ('' a '' @ ''.%(ext)s'')
   \<and> strip (meta_title_override (demo_cfg\<lparr>name_template := '' ''\<rparr>)) = []
   \<and> strip (name_template (demo_cfg\<lparr>name_template := '' ''\<rparr>)) = []
   \<and> build_cmd demo_env (demo_cfg\<lparr>name_template := '' ''\<rparr>) =
     Inr [''/usr/bin/python3'', ''-m'', ''yt_dlp'', ''--newline'', ''--yes-playlist'',
          ''-o'', ''/tmp/out/ '',
          ''-f'', ''bestvideo[height<=1080]+bestaudio/best[height<=1080]'',
          ''--merge-output-format'', ''mp4'', ''https://example.org/v'']
   \<and> ''/tmp/out/ '' \<noteq> path_join demo_env (out_dir demo_cfg) DEFAULT_TEMPLATE"
  by code_simp

section \<open>Totality of build_cmd\<close>

text \<open>
  C10, as the code has it. \<open>build_cmd\<close> returns an argument vector unless the mode is
  \<open>audio\<close>, the lower-cased format is \<open>flac\<close>, and the compression level has more digits
  than the interpreter's limit for \<open>str\<close> of an integer (so: always when there is no
  limit or the absolute level is below ten to the power of the limit). Under that
  condition: in audio mode with format ogg or opus, a quality whose lower case does not
  start with \<open>q\<close> gives no quality token (the list is the metadata, the sample rate, the
  channels, the extra arguments); a sample rate for which \<open>str.isdigit\<close> does not hold
  (it is empty, or one of its characters is not a digit) gives no sample-rate token; and every mode other than \<open>audio\<close> takes the video branch, with no
  audio token and a command that ends with the format selector, the merge flag, the
  container and the URL.
\<close>

theorem C10_build_cmd_total_amended:
  fixes env :: py_env and cfg :: DownloadConfig
  defines "fmt \<equiv> lower (audio_format cfg)"
  defines "mp3 \<equiv> (if fmt = ''mp3'' \<and> mp3_normalize cfg then [''-filter:a'', ''loudnorm''] else [])"
  defines "flac \<equiv> (if fmt = ''flac''
                    then [''-compression_level'', show_int (flac_comp_level cfg)] else [])"
  defines "ogg \<equiv> (if (fmt = ''ogg'' \<or> fmt = ''opus'') \<and> startswith (lower (ogg_quality cfg)) ''q''
                   then [''-q:a'', drop 1 (lower (ogg_quality cfg))] else [])"
  defines "m4a \<equiv> (if fmt = ''m4a'' \<and> upper (aac_profile cfg) = code_points ''LC'' then [''-profile:a'', ''aac_low'']
                   else if fmt = ''m4a'' \<and> upper (aac_profile cfg) = code_points ''HE'' then [''-profile:a'', ''aac_he'']
                   else [])"
  defines "rate \<equiv> (if isdigit (sample_rate cfg) then [''-ar'', sample_rate cfg] else [])"
  defines "chan \<equiv> (if channels cfg = ''mono'' then [''-ac'', ''1'']
                    else if channels cfg = ''stereo'' then [''-ac'', ''2''] else [])"
  defines "extra \<equiv> (if strip (ffmpeg_extra cfg) \<noteq> [] then [strip (ffmpeg_extra cfg)] else [])"
  assumes lim: "mode cfg = ''audio'' \<and> fmt = ''flac'' \<longrightarrow>
                  int_max_str_digits env = 0 \<or> \<bar>flac_comp_level cfg\<bar> < 10 ^ int_max_str_digits env"
  shows "(\<exists>cmd. build_cmd env cfg = Inr cmd)
       \<and> (mode cfg = ''audio'' \<and> (fmt = ''ogg'' \<or> fmt = ''opus'')
            \<and> \<not> startswith (lower (ogg_quality cfg)) ''q'' \<longrightarrow>
            ff_args_of env cfg = Inr (ff_args_meta cfg @ rate @ chan @ extra))
       \<and> (mode cfg = ''audio'' \<and> \<not> isdigit (sample_rate cfg) \<longrightarrow>
            ff_args_of env cfg = Inr (ff_args_meta cfg @ mp3 @ flac @ ogg @ m4a @ chan @ extra))
       \<and> (mode cfg \<noteq> ''audio'' \<longrightarrow>
            ff_args_of env cfg = Inr (ff_args_meta cfg @ extra)
            \<and> (\<exists>pre sel. build_cmd env cfg =
                  Inr (pre @ [''-f'', sel, ''--merge-output-format'', lower (video_container cfg),
                              strip (url cfg)])))"
proof -
  have nolim: "\<not> (mode cfg = ''audio'' \<and> lower (audio_format cfg) = ''flac'' \<and> 0 < int_max_str_digits env
         \<and> int_max_str_digits env < length (show_nat (nat \<bar>flac_comp_level cfg\<bar>)))"
    using lim digits_limit [of "int_max_str_digits env" "flac_comp_level cfg"]
    unfolding fmt_def by blast
  have ff: "ff_args_of env cfg = Inr (ff_args_meta cfg
        @ (if mode cfg = ''audio'' then mp3 @ flac @ ogg @ m4a @ rate @ chan else []) @ extra)"
    unfolding ff_args_of_eq [of env cfg] if_not_P [OF nolim]
      mp3_def flac_def ogg_def m4a_def rate_def chan_def extra_def fmt_def
    by (rule refl)
  then obtain cmd where cmd: "build_cmd env cfg = Inr cmd"
    unfolding build_cmd_Inr by blast
  have a: "mode cfg = ''audio'' \<and> (fmt = ''ogg'' \<or> fmt = ''opus'')
            \<and> \<not> startswith (lower (ogg_quality cfg)) ''q'' \<Longrightarrow>
            ff_args_of env cfg = Inr (ff_args_meta cfg @ rate @ chan @ extra)"
    unfolding ff by (auto simp: mp3_def flac_def ogg_def m4a_def)
  have b: "mode cfg = ''audio'' \<and> \<not> isdigit (sample_rate cfg) \<Longrightarrow>
            ff_args_of env cfg = Inr (ff_args_meta cfg @ mp3 @ flac @ ogg @ m4a @ chan @ extra)"
    unfolding ff by (simp add: rate_def)
  have c: "mode cfg \<noteq> ''audio'' \<Longrightarrow> ff_args_of env cfg = Inr (ff_args_meta cfg @ extra)"
    unfolding ff by simp
  have d: "\<exists>pre sel. build_cmd env cfg =
                  Inr (pre @ [''-f'', sel, ''--merge-output-format'', lower (video_container cfg),
                              strip (url cfg)])" if v: "mode cfg \<noteq> ''audio''"
  proof -
    have "\<exists>sel. format_args cfg = [''-f'', sel, ''--merge-output-format'', lower (video_container cfg)]"
      using v by (cases "video_quality cfg = ''Best''") (simp_all add: format_args_def Let_def)
    then obtain sel where sel: "format_args cfg = [''-f'', sel, ''--merge-output-format'', lower (video_container cfg)]"
      by blast
    from cmd obtain pre where "cmd = pre @ format_args cfg @ [strip (url cfg)]"
      unfolding build_cmd_Inr by (metis append.assoc)
    with cmd sel show ?thesis by auto
  qed
  show ?thesis
    using cmd a b c d by blast
qed

theorem C10_build_cmd_total_amended_witness:
  "mode demo_audio_cfg = ''audio'' \<and> lower (audio_format demo_audio_cfg) = ''flac''
   \<and> \<bar>flac_comp_level demo_audio_cfg\<bar> < 10 ^ int_max_str_digits demo_env
   \<and> (\<exists>cmd. build_cmd demo_env demo_audio_cfg = Inr cmd)
   \<and> mode demo_ogg_cfg = ''audio'' \<and> lower (audio_format demo_ogg_cfg) = ''ogg''
   \<and> \<not> startswith (lower (ogg_quality demo_ogg_cfg)) ''q''
   \<and> \<not> isdigit (sample_rate demo_ogg_cfg)
   \<and> ff_args_of demo_env demo_ogg_cfg = Inr [''-ac'', ''2'']
   \<and> mode demo_cfg \<noteq> ''audio''
   \<and> ff_args_of demo_env demo_cfg = Inr []"
proof -
  have k: "0 < int_max_str_digits demo_env"
    by (simp add: demo_env_def)
  have "\<bar>flac_comp_level demo_audio_cfg\<bar> < 10"
    by (simp add: demo_audio_cfg_def demo_cfg_def)
  then have h0: "\<bar>flac_comp_level demo_audio_cfg\<bar> < 10 ^ int_max_str_digits demo_env"
    using abs_less_pow10 [OF _ k] by blast
  then have h1: "mode demo_audio_cfg = ''audio'' \<and> lower (audio_format demo_audio_cfg) = ''flac'' \<longrightarrow>
      int_max_str_digits demo_env = 0
      \<or> \<bar>flac_comp_level demo_audio_cfg\<bar> < 10 ^ int_max_str_digits demo_env"
    by blast
  have a: "mode demo_audio_cfg = ''audio''" "lower (audio_format demo_audio_cfg) = ''flac''"
    by code_simp+
  have f: "lower (audio_format demo_ogg_cfg) = ''ogg''" "lower (audio_format demo_cfg) = ''mp3''"
    by code_simp+
  have h2: "mode demo_ogg_cfg = ''audio'' \<and> lower (audio_format demo_ogg_cfg) = ''flac'' \<longrightarrow>
      int_max_str_digits demo_env = 0
      \<or> \<bar>flac_comp_level demo_ogg_cfg\<bar> < 10 ^ int_max_str_digits demo_env"
    using f by simp
  have h3: "mode demo_cfg = ''audio'' \<and> lower (audio_format demo_cfg) = ''flac'' \<longrightarrow>
      int_max_str_digits demo_env = 0
      \<or> \<bar>flac_comp_level demo_cfg\<bar> < 10 ^ int_max_str_digits demo_env"
    by (simp add: demo_cfg_def)
  have m: "mode demo_ogg_cfg = ''audio''" "mode demo_cfg \<noteq> ''audio''"
    by (simp_all add: demo_ogg_cfg_def demo_cfg_def)
  have q: "\<not> startswith (lower (ogg_quality demo_ogg_cfg)) ''q''"
    by code_simp
  have d: "\<not> isdigit (sample_rate demo_ogg_cfg)"
    by code_simp
  have e: "ff_args_meta demo_ogg_cfg = []" "strip (ffmpeg_extra demo_ogg_cfg) = []"
    "channels demo_ogg_cfg = ''stereo''" "ff_args_meta demo_cfg = []"
    "strip (ffmpeg_extra demo_cfg) = []"
    by code_simp+
  from C10_build_cmd_total_amended [OF h1] have 1: "\<exists>cmd. build_cmd demo_env demo_audio_cfg = Inr cmd"
    by blast
  from C10_build_cmd_total_amended [OF h2] m q d f
  have 2: "ff_args_of demo_env demo_ogg_cfg = Inr [''-ac'', ''2'']"
    by (simp add: e)
  from C10_build_cmd_total_amended [OF h3] m
  have 3: "ff_args_of demo_env demo_cfg = Inr []"
    by (simp add: e)
  show ?thesis
    using h0 a 1 m f q d 2 3 by blast
qed

lemma demo_flac_overflow:
  "build_cmd demo_env (demo_cfg\<lparr>mode := ''audio'', audio_format := ''flac'', flac_comp_level := 10 ^ 4300\<rparr>)
     = Inl ValueError"
proof (rule flac_level_overflow)
  show "int_max_str_digits demo_env = 4300" by (simp add: demo_env_def)
  show "(0::nat) < 4300" by simp
  show "(4300::nat) \<le> 4300" by simp
  show "mode (demo_cfg\<lparr>mode := ''audio'', audio_format := ''flac'', flac_comp_level := 10 ^ 4300\<rparr>) = ''audio''"
    by (simp del: power_numeral)
  show "audio_format (demo_cfg\<lparr>mode := ''audio'', audio_format := ''flac'', flac_comp_level := 10 ^ 4300\<rparr>) = ''flac''"
    by (simp del: power_numeral)
  show "flac_comp_level (demo_cfg\<lparr>mode := ''audio'', audio_format := ''flac'', flac_comp_level := 10 ^ 4300\<rparr>) = 10 ^ 4300"
    by (simp del: power_numeral)
qed

text \<open>
  As the specification words it, the property fails three times. A compression level of
  4301 digits is an integer like any other: with the limit of 4300 digits, \<open>str\<close> raises
  \<open>ValueError\<close> and no argument vector is returned. The quality \<open>Q7\<close> does not
  start with \<open>q\<close>, but it is compared in lower case and gives the quality token. And
  the sample rate made of the superscript two, U+00B2, holds no decimal digit, but
  \<open>str.isdigit\<close> holds for it and it gives the sample-rate token.
\<close>

theorem C10_build_cmd_total_counterexample:
  "build_cmd demo_env (demo_cfg\<lparr>mode := ''audio'', audio_format := ''flac'', flac_comp_level := 10 ^ 4300\<rparr>)
     = Inl ValueError
   \<and> \<not> startswith ''Q7'' ''q''
   \<and> ff_args_of demo_env (demo_cfg\<lparr>mode := ''audio'', audio_format := ''ogg'', ogg_quality := ''Q7''\<rparr>)
     = Inr [''-q:a'', ''7'']
   \<and> \<not> list_all isdecimal_char [CHR 0xB2]
   \<and> ff_args_of demo_env (demo_cfg\<lparr>mode := ''audio'', sample_rate := [CHR 0xB2]\<rparr>)
     = Inr [''-ar'', [CHR 0xB2]]"
proof -
  have s: "\<not> list_all isdecimal_char [CHR 0xB2]"
    by code_simp
  have r: "ff_args_of demo_env (demo_cfg\<lparr>mode := ''audio'', sample_rate := [CHR 0xB2]\<rparr>)
     = Inr [''-ar'', [CHR 0xB2]]"
    by code_simp
  have q: "\<not> startswith ''Q7'' ''q''"
    by code_simp
  have f: "ff_args_of demo_env (demo_cfg\<lparr>mode := ''audio'', audio_format := ''ogg'', ogg_quality := ''Q7''\<rparr>)
     = Inr [''-q:a'', ''7'']"
    by code_simp
  show ?thesis
    by (intro conjI demo_flac_overflow q f s r)
qed

section \<open>Auxiliary facts about the reading loop\<close>

lemma handle_line_no_finished: "Emit (Finished b m) \<notin> set (fst (handle_line p l))"
  by (simp add: handle_line_def Let_def split: option.split sum.split)

lemma read_lines_no_finished: "Emit (Finished b m) \<notin> set (fst (read_lines p items))"
proof (induction p items rule: read_lines.induct)
  case (3 percent stop line rest)
  then show ?case
    using handle_line_no_finished [of b m percent line]
    by (auto split: prod.splits)
qed simp_all

lemma read_lines_quiet:
  "\<forall>it\<in>set items. is_Line it \<and> \<not> stop_seen it \<Longrightarrow> snd (read_lines p items) = Exhausted"
proof (induction p items rule: read_lines.induct)
  case (3 percent stop line rest)
  then show ?case by (auto split: prod.splits)
qed simp_all

lemma read_lines_stop:
  "\<forall>it\<in>set quiet. is_Line it \<and> \<not> stop_seen it \<Longrightarrow>
   read_lines p (quiet @ Line True l # rest) = (fst (read_lines p quiet) @ [Terminate], Stopped)"
proof (induction p quiet rule: read_lines.induct)
  case (3 percent stop line rest)
  then show ?case by (auto split: prod.splits)
qed simp_all

lemma read_lines_Stopped_terminate:
  "snd (read_lines p items) = Stopped \<Longrightarrow> Terminate \<in> set (fst (read_lines p items))"
proof (induction p items rule: read_lines.induct)
  case (3 percent stop line rest)
  then show ?case by (auto split: prod.splits if_splits)
qed simp_all

section \<open>Auxiliary facts about the progress pattern and the conversion\<close>

lemma digit_not_space: "isdecimal_char c \<Longrightarrow> \<not> isspace c"
  by (auto simp: isdecimal_char_def isspace_def py_whitespace_def)

lemma point_percent_not_digit: "\<not> isdecimal_char (CHR ''.'')" "\<not> isdecimal_char (CHR ''%'')"
  by (simp_all add: isdecimal_char_def)

lemma takeWhile_run:
  "list_all P xs \<Longrightarrow> ys = [] \<or> \<not> P (hd ys) \<Longrightarrow>
   takeWhile P (xs @ ys) = xs \<and> dropWhile P (xs @ ys) = ys"
proof (induction xs)
  case Nil
  then show ?case by (cases ys) simp_all
next
  case (Cons x xs)
  then show ?case by simp
qed

lemma pat_match_at_complete:
  assumes ws: "ws \<noteq> []" "list_all isspace ws"
    and ip: "ip \<noteq> []" "list_all isdecimal_char ip"
    and fr: "fr = [] \<or> (\<exists>fp. fr = CHR ''.'' # fp \<and> fp \<noteq> [] \<and> list_all isdecimal_char fp)"
  shows "pat_match_at (''[download]'' @ ws @ ip @ fr @ ''%'' @ post) = Some (ip @ fr)"
proof -
  let ?s = "''[download]'' @ ws @ ip @ fr @ ''%'' @ post"
  have st: "startswith ?s ''[download]''"
    by (simp add: startswith_def)
  have dr: "drop 10 ?s = ws @ ip @ fr @ ''%'' @ post"
    by simp
  have "\<not> isspace (hd (ip @ fr @ ''%'' @ post))"
    using ip by (cases ip) (auto simp: digit_not_space)
  then have w: "takeWhile isspace (ws @ ip @ fr @ ''%'' @ post) = ws"
    "dropWhile isspace (ws @ ip @ fr @ ''%'' @ post) = ip @ fr @ ''%'' @ post"
    using takeWhile_run [OF ws(2), of "ip @ fr @ ''%'' @ post"] by simp_all
  have "\<not> isdecimal_char (hd (fr @ ''%'' @ post))"
    using fr by (auto simp: point_percent_not_digit)
  then have i: "takeWhile isdecimal_char (ip @ fr @ ''%'' @ post) = ip"
    "dropWhile isdecimal_char (ip @ fr @ ''%'' @ post) = fr @ ''%'' @ post"
    using takeWhile_run [OF ip(2), of "fr @ ''%'' @ post"] by simp_all
  show ?thesis
  proof (cases "fr = []")
    case True
    then show ?thesis
      unfolding pat_match_at_def if_P [OF st] dr Let_def w i using ws(1) ip(1) by simp
  next
    case False
    with fr obtain fp where fp: "fr = CHR ''.'' # fp" "fp \<noteq> []" "list_all isdecimal_char fp"
      by blast
    have f: "takeWhile isdecimal_char (fp @ ''%'' @ post) = fp"
      "dropWhile isdecimal_char (fp @ ''%'' @ post) = ''%'' @ post"
      using takeWhile_run [OF fp(3), of "''%'' @ post"] by (simp_all add: point_percent_not_digit)
    show ?thesis
      unfolding pat_match_at_def if_P [OF st] dr Let_def w i using ws(1) ip(1) fp(2) f
      by (simp add: fp(1))
  qed
qed

lemma list_all_takeWhile: "list_all P (takeWhile P xs)"
  by (induction xs) simp_all

lemma pat_match_at_sound:
  assumes "pat_match_at s = Some g"
  shows "\<exists>ws ip fr post. s = ''[download]'' @ ws @ ip @ fr @ ''%'' @ post \<and> g = ip @ fr
           \<and> ws \<noteq> [] \<and> list_all isspace ws \<and> ip \<noteq> [] \<and> list_all isdecimal_char ip
           \<and> (fr = [] \<or> (\<exists>fp. fr = CHR ''.'' # fp \<and> fp \<noteq> [] \<and> list_all isdecimal_char fp))"
proof -
  define r where "r = drop 10 s"
  define ws where "ws = takeWhile isspace r"
  define r1 where "r1 = dropWhile isspace r"
  define ip where "ip = takeWhile isdecimal_char r1"
  define r2 where "r2 = dropWhile isdecimal_char r1"
  have st: "startswith s ''[download]''"
    using assms by (auto simp: pat_match_at_def split: if_splits)
  then have "take 10 s = ''[download]''"
    by (simp add: startswith_def eval_nat_numeral)
  then have s: "s = ''[download]'' @ r"
    unfolding r_def by (metis append_take_drop_id)
  have r: "r = ws @ r1" "r1 = ip @ r2"
    by (simp_all add: ws_def r1_def ip_def r2_def)
  have m: "(if ws = [] then None
            else if ip = [] then None
            else (case r2 of [] \<Rightarrow> None
                  | c # r' \<Rightarrow>
                      if c = CHR ''%'' then Some ip
                      else if c = CHR ''.''
                      then (if takeWhile isdecimal_char r' \<noteq> [] \<and> take 1 (dropWhile isdecimal_char r') = ''%''
                            then Some (ip @ ''.'' @ takeWhile isdecimal_char r')
                            else None)
                      else None)) = Some g"
    using assms st unfolding pat_match_at_def Let_def r_def [symmetric] ws_def [symmetric]
      r1_def [symmetric] ip_def [symmetric] r2_def [symmetric]
    by simp
  then have ne: "ws \<noteq> []" "ip \<noteq> []"
    by (auto split: if_splits)
  have al: "list_all isspace ws" "list_all isdecimal_char ip"
    by (simp_all add: ws_def ip_def list_all_takeWhile)
  from m ne obtain c r' where r2: "r2 = c # r'"
    by (cases r2) auto
  show ?thesis
  proof (cases "c = CHR ''%''")
    case True
    with m ne r2 have "g = ip" by simp
    moreover have "s = ''[download]'' @ ws @ ip @ [] @ ''%'' @ r'"
      using s r r2 True by simp
    ultimately show ?thesis
      using ne al by blast
  next
    case False
    define fp where "fp = takeWhile isdecimal_char r'"
    from m ne r2 False have c: "c = CHR ''.''" and fpne: "fp \<noteq> []"
      and pc: "take 1 (dropWhile isdecimal_char r') = ''%''" and g: "g = ip @ ''.'' @ fp"
      by (auto simp: fp_def split: if_splits)
    from pc obtain post where "dropWhile isdecimal_char r' = ''%'' @ post"
      by (cases "dropWhile isdecimal_char r'") auto
    then have "r' = fp @ ''%'' @ post"
      unfolding fp_def by (metis takeWhile_dropWhile_id)
    then have "s = ''[download]'' @ ws @ ip @ (CHR ''.'' # fp) @ ''%'' @ post"
      using s r r2 c by simp
    moreover have "list_all isdecimal_char fp"
      by (simp add: fp_def list_all_takeWhile)
    ultimately show ?thesis
      using ne al fpne g by (intro exI [of _ ws] exI [of _ ip] exI [of _ "CHR ''.'' # fp"] exI [of _ post]) simp
  qed
qed

lemma pat_search_leftmost:
  "pat_search s = Some g \<Longrightarrow>
   \<exists>pre suf. s = pre @ suf \<and> pat_match_at suf = Some g
     \<and> (\<forall>pre' suf'. s = pre' @ suf' \<and> length pre' < length pre \<longrightarrow> pat_match_at suf' = None)"
proof (induction s)
  case Nil
  then have m: "pat_match_at [] = Some g"
    by simp
  have "([] :: string) = [] @ [] \<and> pat_match_at [] = Some g
     \<and> (\<forall>pre' suf'. ([] :: string) = pre' @ suf' \<and> length pre' < length ([] :: string)
           \<longrightarrow> pat_match_at suf' = None)"
    using m by simp
  then show ?case
    by (intro exI)
next
  case (Cons c cs)
  show ?case
  proof (cases "pat_match_at (c # cs)")
    case None
    with Cons.prems have "pat_search cs = Some g"
      by simp
    from Cons.IH [OF this] obtain pre suf where d: "cs = pre @ suf" "pat_match_at suf = Some g"
      and l: "\<forall>pre' suf'. cs = pre' @ suf' \<and> length pre' < length pre \<longrightarrow> pat_match_at suf' = None"
      by blast
    have n: "pat_match_at suf' = None" if "c # cs = pre' @ suf'" "length pre' < length (c # pre)"
      for pre' suf'
    proof (cases pre')
      case Nil
      with that(1) have "suf' = c # cs" by simp
      then show ?thesis using None by simp
    next
      case (Cons x xs)
      with that have "cs = xs @ suf' \<and> length xs < length pre" by simp
      with l show ?thesis by blast
    qed
    have "c # cs = (c # pre) @ suf"
      unfolding d(1) by simp
    moreover have "\<forall>pre' suf'. c # cs = pre' @ suf' \<and> length pre' < length (c # pre)
                     \<longrightarrow> pat_match_at suf' = None"
      using n by blast
    ultimately have "c # cs = (c # pre) @ suf \<and> pat_match_at suf = Some g
       \<and> (\<forall>pre' suf'. c # cs = pre' @ suf' \<and> length pre' < length (c # pre)
             \<longrightarrow> pat_match_at suf' = None)"
      using d(2) by (intro conjI)
    then show ?thesis
      by (intro exI)
  next
    case (Some a)
    with Cons.prems have g: "pat_match_at (c # cs) = Some g"
      by simp
    have "c # cs = [] @ (c # cs) \<and> pat_match_at (c # cs) = Some g
       \<and> (\<forall>pre' suf'. c # cs = pre' @ suf' \<and> length pre' < length ([] :: string)
             \<longrightarrow> pat_match_at suf' = None)"
      using g by simp
    then show ?thesis
      by (intro exI)
  qed
qed

lemma pat_search_complete:
  "pat_match_at suf \<noteq> None \<Longrightarrow> pat_search (pre @ suf) \<noteq> None"
proof (induction pre)
  case Nil
  then show ?case by (cases suf) auto
next
  case (Cons c pre)
  then show ?case by (auto split: option.splits)
qed

text \<open>
  The conversion to a float is the rounding of binary64: the exponent is that of the
  number (\<open>floor_log2\<close>, not below the one of the subnormal numbers), the significand
  is the nearest integer multiple of the unit in the last place, and the result is
  infinite exactly from \<open>2^1024 - 2^970\<close> on.
\<close>

lemma bit_length_bounds: "0 < n \<Longrightarrow> 2 ^ (bit_length n - 1) \<le> n \<and> n < 2 ^ bit_length n"
proof (induction n rule: bit_length.induct)
  case (1 n)
  show ?case
  proof (cases "n div 2 = 0")
    case True
    with 1(2) have n: "n = Suc 0" by presburger
    have "bit_length (Suc 0) = Suc 0"
      by (simp add: bit_length.simps [of "Suc 0"] bit_length.simps [of 0])
    then show ?thesis unfolding n by simp
  next
    case False
    then have h: "2 ^ (bit_length (n div 2) - 1) \<le> n div 2 \<and> n div 2 < 2 ^ bit_length (n div 2)"
      using 1 by simp
    have b: "bit_length n = Suc (bit_length (n div 2))"
      using 1(2) by (simp add: bit_length.simps [of n])
    have p: "0 < bit_length (n div 2)"
      using False by (simp add: bit_length.simps [of "n div 2"])
    then obtain k where k: "bit_length (n div 2) = Suc k"
      by (cases "bit_length (n div 2)") auto
    from h have "2 * 2 ^ k \<le> 2 * (n div 2)" "2 * (n div 2) + 1 < 2 * 2 ^ Suc k"
      unfolding k by simp_all
    moreover have "2 * (n div 2) \<le> n" "n \<le> 2 * (n div 2) + 1"
      by presburger+
    ultimately show ?thesis
      unfolding b k by simp
  qed
qed

lemma round_half_even_cases:
  assumes "0 < b"
  obtains q r where "a = q * b + r" "r < b"
    "round_half_even a b = (if 2 * r < b then q else if b < 2 * r then q + 1 else if even q then q else q + 1)"
proof
  show "a = (a div b) * b + a mod b" by simp
  show "a mod b < b" using assms by simp
  show "round_half_even a b = (if 2 * (a mod b) < b then a div b else if b < 2 * (a mod b) then a div b + 1
      else if even (a div b) then a div b else a div b + 1)"
    by (simp add: round_half_even_def Let_def)
qed

lemma round_half_even_nearest:
  assumes "0 < b"
  shows "2 * (round_half_even a b * b) \<le> 2 * a + b \<and> 2 * a \<le> 2 * (round_half_even a b * b) + b"
proof -
  obtain q r where a: "a = q * b + r" and r: "r < b"
    and m: "round_half_even a b = (if 2 * r < b then q else if b < 2 * r then q + 1 else if even q then q else q + 1)"
    using round_half_even_cases [OF assms] by blast
  have s: "(q + 1) * b = q * b + b" by simp
  consider "2 * r < b" | "b < 2 * r" | "2 * r = b \<and> even q" | "2 * r = b \<and> odd q"
    by linarith
  then show ?thesis
  proof cases
    case 1
    then have "round_half_even a b * b = q * b" unfolding m by simp
    then show ?thesis using a r 1 by linarith
  next
    case 2
    then have "round_half_even a b * b = q * b + b" unfolding m using s by simp
    then show ?thesis using a r 2 by linarith
  next
    case 3
    then have "round_half_even a b * b = q * b" unfolding m by simp
    then show ?thesis using a r 3 by linarith
  next
    case 4
    then have "round_half_even a b * b = q * b + b" unfolding m using s by simp
    then show ?thesis using a r 4 by linarith
  qed
qed

lemma round_half_even_ge_iff:
  assumes "0 < b" "even K"
  shows "K \<le> round_half_even a b \<longleftrightarrow> 2 * (K * b) \<le> 2 * a + b"
proof -
  obtain q r where a: "a = q * b + r" and r: "r < b"
    and m: "round_half_even a b = (if 2 * r < b then q else if b < 2 * r then q + 1 else if even q then q else q + 1)"
    using round_half_even_cases [OF assms(1)] by blast
  have le: "K \<le> q \<Longrightarrow> K * b \<le> q * b"
    by (rule mult_le_mono1)
  have gt2: "q + 1 < K \<Longrightarrow> q * b + 2 * b \<le> K * b"
  proof -
    assume "q + 1 < K"
    then have "Suc (Suc q) \<le> K" by simp
    then have "Suc (Suc q) * b \<le> K * b" by (rule mult_le_mono1)
    moreover have "Suc (Suc q) * b = q * b + 2 * b" by simp
    ultimately show ?thesis by linarith
  qed
  have s: "(q + 1) * b = q * b + b" by simp
  consider "K \<le> q" | "q + 1 = K" | "q + 1 < K" by linarith
  then show ?thesis
  proof cases
    case 1
    from le [OF 1] have "2 * (K * b) \<le> 2 * a + b" using a by linarith
    moreover have "K \<le> round_half_even a b" unfolding m using 1 by simp
    ultimately show ?thesis by simp
  next
    case 2
    then have kq: "K * b = q * b + b" using s by simp
    have oq: "odd q" using 2 assms(2) by auto
    have "K \<le> round_half_even a b \<longleftrightarrow> b \<le> 2 * r"
      unfolding m using 2 oq by auto
    moreover have "2 * (K * b) \<le> 2 * a + b \<longleftrightarrow> b \<le> 2 * r"
      using kq a by linarith
    ultimately show ?thesis by simp
  next
    case 3
    from gt2 [OF 3] have "2 * a + b < 2 * (K * b)" using r a by linarith
    moreover have "\<not> K \<le> round_half_even a b" unfolding m using 3 by simp
    ultimately show ?thesis by simp
  qed
qed

lemma pow2_split: "x \<le> y \<Longrightarrow> (2::nat) ^ y = 2 ^ x * 2 ^ (y - x)"
  by (metis le_add_diff_inverse power_add)

lemma floor_log2_spec:
  assumes n: "0 < n" and d: "0 < d"
  defines "G \<equiv> \<lambda>e::int. if 0 \<le> e then d * 2 ^ nat e \<le> n else d \<le> n * 2 ^ nat (- e)"
  shows "G (floor_log2 n d) \<and> \<not> G (floor_log2 n d + 1)"
proof -
  define a b where "a = bit_length n" and "b = bit_length d"
  have A: "2 ^ (a - 1) \<le> n" "n < 2 ^ a"
    using bit_length_bounds [OF n] by (simp_all add: a_def)
  have B: "2 ^ (b - 1) \<le> d" "d < 2 ^ b"
    using bit_length_bounds [OF d] by (simp_all add: b_def)
  have a1: "1 \<le> a"
    using n by (simp add: a_def bit_length.simps [of n])
  have b1: "1 \<le> b"
    using d by (simp add: b_def bit_length.simps [of d])
  have U: "\<not> G (int a - int b + 1)"
  proof (cases "b \<le> a + 1")
    case True
    then have e: "nat (int a - int b + 1) = a + 1 - b" "0 \<le> int a - int b + 1"
      by simp_all
    have "(2::nat) ^ a = 2 ^ (b - 1) * 2 ^ (a + 1 - b)"
      using pow2_split [of "b - 1" a] True b1 by (simp add: Suc_diff_le)
    also have "\<dots> \<le> d * 2 ^ (a + 1 - b)"
      using B(1) by (rule mult_le_mono1)
    finally have "n < d * 2 ^ (a + 1 - b)"
      using A(2) by linarith
    then show ?thesis
      unfolding G_def e using e(2) by simp
  next
    case False
    then have e: "nat (- (int a - int b + 1)) = b - a - 1" "\<not> 0 \<le> int a - int b + 1"
      by simp_all
    have "n * 2 ^ (b - a - 1) < 2 ^ a * 2 ^ (b - a - 1)"
      using A(2) by simp
    also have "\<dots> = 2 ^ (b - 1)"
      using pow2_split [of a "b - 1"] False by simp
    finally have "n * 2 ^ (b - a - 1) < d"
      using B(1) by linarith
    then show ?thesis
      unfolding G_def e using e(2) by simp
  qed
  have L: "G (int a - int b - 1)"
  proof (cases "b + 1 \<le> a")
    case True
    then have e: "nat (int a - int b - 1) = a - b - 1" "0 \<le> int a - int b - 1"
      by simp_all
    have "d * 2 ^ (a - b - 1) \<le> 2 ^ b * 2 ^ (a - b - 1)"
      using B(2) by simp
    also have "\<dots> = 2 ^ (a - 1)"
      using pow2_split [of b "a - 1"] True by simp
    finally have "d * 2 ^ (a - b - 1) \<le> n"
      using A(1) by linarith
    then show ?thesis
      unfolding G_def e using e(2) by simp
  next
    case False
    then have e: "nat (- (int a - int b - 1)) = b + 1 - a" "\<not> 0 \<le> int a - int b - 1"
      by simp_all
    have "(2::nat) ^ b = 2 ^ (a - 1) * 2 ^ (b + 1 - a)"
      using pow2_split [of "a - 1" b] False a1 by (simp add: Suc_diff_le)
    also have "\<dots> \<le> n * 2 ^ (b + 1 - a)"
      using A(1) by (rule mult_le_mono1)
    finally have "d \<le> n * 2 ^ (b + 1 - a)"
      using B(2) by linarith
    then show ?thesis
      unfolding G_def e using e(2) by simp
  qed
  show ?thesis
  proof (cases "G (int a - int b)")
    case True
    then have "floor_log2 n d = int a - int b"
      unfolding floor_log2_def Let_def G_def a_def b_def by simp
    with True U show ?thesis by simp
  next
    case False
    then have "floor_log2 n d = int a - int b - 1"
      unfolding floor_log2_def Let_def G_def a_def b_def by simp
    with False L show ?thesis by simp
  qed
qed

lemma float_of_ratio_Infinity_iff:
  assumes n: "0 < n" and d: "0 < d"
  shows "float_of_ratio n d = Infinity \<longleftrightarrow> 2 ^ 1024 * d \<le> n + 2 ^ 970 * d"
proof -
  define e0 where "e0 = floor_log2 n d"
  define e where "e = max e0 (- 1022)"
  define sh where "sh = e - 52"
  define b where "b = d * 2 ^ nat sh"
  define m where "m = round_half_even n b"
  have G: "if 0 \<le> e0 then d * 2 ^ nat e0 \<le> n else d \<le> n * 2 ^ nat (- e0)"
    and NG: "\<not> (if 0 \<le> e0 + 1 then d * 2 ^ nat (e0 + 1) \<le> n else d \<le> n * 2 ^ nat (- (e0 + 1)))"
    using floor_log2_spec [OF n d] unfolding e0_def by simp_all
  have inf: "float_of_ratio n d = Infinity \<longleftrightarrow> 0 \<le> sh \<and> 2 ^ 1024 \<le> m * 2 ^ nat sh"
    using n unfolding float_of_ratio_def Let_def e0_def [symmetric] e_def [symmetric]
      sh_def [symmetric] b_def [symmetric]
    by (simp add: m_def)
  have bpos: "0 < b"
    using d by (simp add: b_def)
  consider "e0 < 52" | "52 \<le> e0" "e0 \<le> 1022" | "e0 = 1023" | "1024 \<le> e0"
    by linarith
  then show ?thesis
  proof cases
    case 1
    then have "sh < 0"
      by (simp add: sh_def e_def)
    then have l: "float_of_ratio n d \<noteq> Infinity"
      using inf by simp
    have "n < d * 2 ^ 52"
    proof (cases "0 \<le> e0 + 1")
      case True
      then have "n < d * 2 ^ nat (e0 + 1)"
        using NG by simp
      also have "\<dots> \<le> d * 2 ^ 52"
        using 1 by (intro mult_le_mono2 power_increasing) simp_all
      finally show ?thesis .
    next
      case False
      then have "n * 2 ^ nat (- (e0 + 1)) < d"
        using NG by simp
      moreover have "n \<le> n * 2 ^ nat (- (e0 + 1))"
        by simp
      ultimately have "n < d" by linarith
      moreover have "d \<le> d * 2 ^ 52"
        by simp
      ultimately show ?thesis by linarith
    qed
    moreover have "d * (2::nat) ^ 52 + 2 ^ 970 * d \<le> 2 ^ 1024 * d"
    proof -
      have "(2::nat) ^ 52 + 2 ^ 970 \<le> 2 ^ 1024" by simp
      then have "((2::nat) ^ 52 + 2 ^ 970) * d \<le> 2 ^ 1024 * d"
        by (rule mult_le_mono1)
      then show ?thesis by (simp add: algebra_simps)
    qed
    ultimately have "\<not> 2 ^ 1024 * d \<le> n + 2 ^ 970 * d"
      by linarith
    with l show ?thesis by simp
  next
    case 2
    then have sh: "0 \<le> sh" "nat sh = nat e0 - 52" "sh = e0 - 52" "52 \<le> nat e0" "nat e0 \<le> 1022"
      by (simp_all add: sh_def e_def)
    have nlt: "n < d * 2 ^ (nat e0 + 1)"
      using NG 2 by (simp add: nat_add_distrib)
    have pb: "d * 2 ^ (nat e0 + 1) = 2 ^ 53 * b"
      using pow2_split [of 53 "nat e0 + 1"] sh(4) by (simp add: b_def sh(2))
    from round_half_even_nearest [OF bpos, of n]
    have "2 * (m * b) \<le> 2 * n + b"
      by (simp add: m_def)
    with nlt pb have "2 * (m * b) < 2 * (2 ^ 53 * b) + b"
      by linarith
    then have "m * b < (2 ^ 53 + 1) * b"
      by (simp add: algebra_simps)
    then have mle: "m \<le> 2 ^ 53"
      using bpos by simp
    have "m * 2 ^ nat sh \<le> 2 ^ 53 * 2 ^ nat sh"
      using mle by (rule mult_le_mono1)
    also have "\<dots> = 2 ^ (nat e0 + 1)"
      using pow2_split [of 53 "nat e0 + 1"] sh(4) by (simp add: sh(2))
    also have "\<dots> \<le> 2 ^ 1023"
      using sh(5) by (intro power_increasing) simp_all
    also have "\<dots> < (2::nat) ^ 1024"
      by simp
    finally have l: "float_of_ratio n d \<noteq> Infinity"
      using inf by simp
    have "d * 2 ^ (nat e0 + 1) \<le> d * 2 ^ 1023"
      using sh(5) by (intro mult_le_mono2 power_increasing) simp_all
    with nlt have "n < d * 2 ^ 1023" by linarith
    moreover have "d * (2::nat) ^ 1023 + 2 ^ 970 * d \<le> 2 ^ 1024 * d"
    proof -
      have "(2::nat) ^ 1023 + 2 ^ 970 \<le> 2 ^ 1024" by simp
      then have "((2::nat) ^ 1023 + 2 ^ 970) * d \<le> 2 ^ 1024 * d"
        by (rule mult_le_mono1)
      then show ?thesis by (simp add: algebra_simps)
    qed
    ultimately have "\<not> 2 ^ 1024 * d \<le> n + 2 ^ 970 * d"
      by linarith
    with l show ?thesis by simp
  next
    case 3
    then have sh: "0 \<le> sh" "nat sh = 971"
      by (simp_all add: sh_def e_def)
    have b: "b = d * 2 ^ 971"
      by (simp add: b_def sh)
    have "2 ^ 1024 \<le> m * 2 ^ 971 \<longleftrightarrow> 2 ^ 53 * (2::nat) ^ 971 \<le> m * 2 ^ 971"
      by (simp add: power_add [symmetric])
    also have "\<dots> \<longleftrightarrow> 2 ^ 53 \<le> m"
      by simp
    also have "\<dots> \<longleftrightarrow> 2 * (2 ^ 53 * b) \<le> 2 * n + b"
      unfolding m_def by (rule round_half_even_ge_iff [OF bpos]) simp
    also have "2 * (2 ^ 53 * b) = 2 * (2 ^ 1024 * d)"
      unfolding b by (simp add: power_add [symmetric])
    also have "2 * n + b = 2 * (n + 2 ^ 970 * d)"
      unfolding b by (simp add: power_add [symmetric])
    finally have "2 ^ 1024 \<le> m * 2 ^ 971 \<longleftrightarrow> 2 ^ 1024 * d \<le> n + 2 ^ 970 * d"
      by simp
    then show ?thesis
      using inf sh by simp
  next
    case 4
    then have sh: "0 \<le> sh" "nat sh = nat e0 - 52" "1024 \<le> nat e0"
      by (simp_all add: sh_def e_def)
    have ge: "d * 2 ^ nat e0 \<le> n"
      using G 4 by simp
    have pb: "d * 2 ^ nat e0 = 2 ^ 52 * b"
      using pow2_split [of 52 "nat e0"] sh(3) by (simp add: b_def sh(2))
    have "2 ^ 52 \<le> m \<longleftrightarrow> 2 * (2 ^ 52 * b) \<le> 2 * n + b"
      unfolding m_def by (rule round_half_even_ge_iff [OF bpos]) simp
    then have m52: "2 ^ 52 \<le> m"
      using ge pb by linarith
    have "(2::nat) ^ 1024 \<le> 2 ^ nat e0"
      using sh(3) by (intro power_increasing) simp_all
    also have "\<dots> = 2 ^ 52 * 2 ^ nat sh"
      using pow2_split [of 52 "nat e0"] sh(3) by (simp add: sh(2))
    also have "\<dots> \<le> m * 2 ^ nat sh"
      using m52 by (rule mult_le_mono1)
    finally have l: "float_of_ratio n d = Infinity"
      using inf sh(1) by simp
    have "(2::nat) ^ 1024 * d \<le> 2 ^ nat e0 * d"
      using sh(3) by (intro mult_le_mono1 power_increasing) simp_all
    moreover have "2 ^ nat e0 * d \<le> n"
      using ge by (simp only: mult.commute)
    ultimately have "2 ^ 1024 * d \<le> n + 2 ^ 970 * d"
      by linarith
    with l show ?thesis by simp
  qed
qed

lemma float_of_ratio_Infinity_iff0:
  assumes d: "0 < d"
  shows "float_of_ratio n d = Infinity \<longleftrightarrow> 2 ^ 1024 * d \<le> n + 2 ^ 970 * d"
proof (cases "n = 0")
  case True
  have "(2::nat) ^ 970 < 2 ^ 1024"
    by simp
  then have "(2::nat) ^ 970 * d < 2 ^ 1024 * d"
    using d by (intro mult_less_mono1)
  then show ?thesis
    using True by (simp add: float_of_ratio_def)
next
  case False
  then show ?thesis
    using float_of_ratio_Infinity_iff [of n d] d by simp
qed

lemma float_of_ratio_nearest:
  assumes "0 < n" "0 < d" "float_of_ratio n d = Finite m sh"
  shows "sh = max (floor_log2 n d) (- 1022) - 52
       \<and> (if 0 \<le> sh
          then 2 * (m * (d * 2 ^ nat sh)) \<le> 2 * n + d * 2 ^ nat sh
               \<and> 2 * n \<le> 2 * (m * (d * 2 ^ nat sh)) + d * 2 ^ nat sh
          else 2 * (m * d) \<le> 2 * (n * 2 ^ nat (- sh)) + d
               \<and> 2 * (n * 2 ^ nat (- sh)) \<le> 2 * (m * d) + d)"
proof -
  define s where "s = max (floor_log2 n d) (- 1022) - 52"
  have f: "float_of_ratio n d =
      (if 0 \<le> s \<and> 2 ^ 1024 \<le> (if 0 \<le> s then round_half_even n (d * 2 ^ nat s)
                                   else round_half_even (n * 2 ^ nat (- s)) d) * 2 ^ nat s
       then Infinity
       else Finite (if 0 \<le> s then round_half_even n (d * 2 ^ nat s)
                    else round_half_even (n * 2 ^ nat (- s)) d) s)"
    using assms(1) unfolding float_of_ratio_def Let_def s_def by simp
  from assms(3) have sh: "sh = s"
    and m: "m = (if 0 \<le> s then round_half_even n (d * 2 ^ nat s)
                 else round_half_even (n * 2 ^ nat (- s)) d)"
    unfolding f by (auto split: if_splits)
  show ?thesis
  proof (cases "0 \<le> s")
    case True
    have "0 < d * 2 ^ nat s" using assms(2) by simp
    from round_half_even_nearest [OF this, of n] True show ?thesis
      unfolding sh m s_def [symmetric] by simp
  next
    case False
    from round_half_even_nearest [OF assms(2), of "n * 2 ^ nat (- s)"] False show ?thesis
      unfolding sh m s_def [symmetric] by simp
  qed
qed

lemma py_float_decimal_decomp:
  assumes "list_all isdecimal_char ip"
    "fr = [] \<or> (\<exists>fp. fr = CHR ''.'' # fp \<and> fp \<noteq> [] \<and> list_all isdecimal_char fp)"
  shows "py_float_decimal (ip @ fr) =
           float_of_ratio (nat_of_digits (ip @ drop 1 fr)) (10 ^ (length fr - 1))"
proof -
  have "fr = [] \<or> \<not> isdecimal_char (hd fr)"
    using assms(2) by (auto simp: point_percent_not_digit)
  from takeWhile_run [OF assms(1) this] have t: "takeWhile isdecimal_char (ip @ fr) = ip"
    by simp
  show ?thesis
    unfolding py_float_decimal_def Let_def t by simp
qed

lemma nat_of_digits_nines: "nat_of_digits (replicate n (CHR ''9'')) = 10 ^ n - 1"
proof -
  have "foldl (\<lambda>acc c. 10 * acc + digit_value c) a (replicate n (CHR ''9'')) = (a + 1) * 10 ^ n - 1" for a
  proof (induction n arbitrary: a)
    case 0
    then show ?case by simp
  next
    case (Suc n)
    have "digit_value (CHR ''9'') = 9" by (simp add: digit_value_def)
    then have "foldl (\<lambda>acc c. 10 * acc + digit_value c) a (replicate (Suc n) (CHR ''9''))
        = (10 * a + 9 + 1) * 10 ^ n - 1"
      using Suc [of "10 * a + 9"] by simp
    then show ?case by (simp add: algebra_simps)
  qed
  from this [of 0] show ?thesis by (simp add: nat_of_digits_def)
qed

lemma py_float_decimal_nines:
  "py_float_decimal (replicate n (CHR ''9'')) = float_of_ratio (10 ^ n - 1) 1"
proof -
  have d: "isdecimal_char (CHR ''9'')"
    by (simp add: isdecimal_char_def)
  then have t: "takeWhile isdecimal_char (replicate n (CHR ''9'')) = replicate n (CHR ''9'')"
    by (induction n) simp_all
  show ?thesis
    by (simp add: py_float_decimal_def t d nat_of_digits_nines)
qed

lemma float_of_nines_309: "float_of_ratio (10 ^ 309 - 1) 1 = Infinity"
  unfolding float_of_ratio_Infinity_iff0 [of 1, OF zero_less_one] by simp

lemma float_42_7: "py_float_decimal ''42.7'' = Finite 6009490752772506 (- 47)"
  by (simp add: py_float_decimal_def nat_of_digits_def digit_value_def
      isdecimal_char_def float_of_ratio_def round_half_even_def floor_log2_def bit_length.simps Let_def)

lemma float_99_0: "py_float_decimal ''99.0'' = Finite 6966505673588736 (- 46)"
  by (simp add: py_float_decimal_def nat_of_digits_def digit_value_def
      isdecimal_char_def float_of_ratio_def round_half_even_def floor_log2_def bit_length.simps Let_def)

lemma float_100: "py_float_decimal ''100'' = Finite 7036874417766400 (- 46)"
  by (simp add: py_float_decimal_def nat_of_digits_def digit_value_def
      isdecimal_char_def float_of_ratio_def round_half_even_def floor_log2_def bit_length.simps Let_def)

lemma search_42_7: "pat_search ''[download]  42.7% of 10MiB'' = Some ''42.7''"
  by code_simp

lemma rstrip_42_7: "rstrip ''[download]  42.7% of 10MiB'' = ''[download]  42.7% of 10MiB''"
  by code_simp

lemma handle_42_7:
  "handle_line p ''[download]  42.7% of 10MiB'' =
     ([Emit (Log_line ''[download]  42.7% of 10MiB''), Emit (Progress 42)], 42)"
  by (simp add: handle_line_def rstrip_42_7 search_42_7 float_42_7 py_int_float_def
      del: pat_search.simps)

lemma rstrip_99_0: "rstrip ''[download]  99.0% of 10MiB'' = ''[download]  99.0% of 10MiB''"
  by code_simp

lemma search_99_0: "pat_search ''[download]  99.0% of 10MiB'' = Some ''99.0''"
  by code_simp

lemma handle_99_0:
  "handle_line p ''[download]  99.0% of 10MiB'' =
     ([Emit (Log_line ''[download]  99.0% of 10MiB''), Emit (Progress 99)], 99)"
  by (simp add: handle_line_def rstrip_99_0 search_99_0 float_99_0 py_int_float_def
      del: pat_search.simps)

lemma rstrip_100: "rstrip ''[download] 100% of 10MiB'' = ''[download] 100% of 10MiB''"
  by code_simp

lemma search_100: "pat_search ''[download] 100% of 10MiB'' = Some ''100''"
  by code_simp

lemma handle_100:
  "handle_line p ''[download] 100% of 10MiB'' =
     ([Emit (Log_line ''[download] 100% of 10MiB''), Emit (Progress 100)], 100)"
  by (simp add: handle_line_def rstrip_100 search_100 float_100 py_int_float_def
      del: pat_search.simps)

lemma demo_lines:
  "fst (read_lines 0 (proc_stdout demo_world)) =
     [Emit (Log_line ''[download]  42.7% of 10MiB''), Emit (Progress 42),
      Emit (Log_line ''[download] 100% of 10MiB''), Emit (Progress 100)]"
  by (simp add: demo_world_def handle_42_7 handle_100)

section \<open>The exit code of the child\<close>

text \<open>
  C5. When the URL is not blank, the directory and the child were created, and every
  line of the output was read with the flag \<open>_stop\<close> unset and without an exception of
  the stream, \<open>run\<close> waits for the child and ends as follows. With exit code 0 its last
  two signals are the percent 100 and the outcome \<open>finished(True, "Download completed.")\<close>,
  whatever percents the lines reported. With any other exit code its last signal is
  \<open>finished(False, "yt-dlp exited with code N.")\<close>, \<open>N\<close> the decimal text of the code.
  No other \<open>finished\<close> signal is emitted.
\<close>

theorem C5_exit_code_outcome:
  assumes "strip (url cfg) \<noteq> []" "mkdir_error w = None" "build_cmd env cfg = Inr cmd"
    "popen_error w = None" "\<forall>it\<in>set (proc_stdout w). is_Line it \<and> \<not> stop_seen it"
  shows "run env w cfg =
           ([Mkdir (out_dir cfg), Emit (Log_line ''Command:''),
             Emit (Log_line (join '' '' (map quote_arg cmd))), Popen cmd]
            @ fst (read_lines 0 (proc_stdout w))
            @ [Wait]
            @ (if returncode w = 0
               then [Emit (Progress 100), Emit (Finished True ''Download completed.'')]
               else [Emit (Finished False (''yt-dlp exited with code '' @ show_int (returncode w) @ ''.''))]),
            None)
       \<and> (\<forall>b m. Emit (Finished b m) \<notin> set (fst (read_lines 0 (proc_stdout w))))"
proof -
  obtain lfx where l: "read_lines 0 (proc_stdout w) = (lfx, Exhausted)"
    using read_lines_quiet [OF assms(5), of 0] by (cases "read_lines 0 (proc_stdout w)") auto
  show ?thesis
    using assms(1-4) l read_lines_no_finished [of _ _ 0 "proc_stdout w"]
    by (simp add: run_def)
qed

theorem C5_exit_code_outcome_witness:
  "strip (url demo_cfg) \<noteq> [] \<and> mkdir_error demo_world = None \<and> popen_error demo_world = None
   \<and> returncode demo_world = 0
   \<and> run demo_env demo_world demo_cfg =
       ([Mkdir ''/tmp/out'', Emit (Log_line ''Command:''),
         Emit (Log_line (join '' '' (map quote_arg
           [''/usr/bin/python3'', ''-m'', ''yt_dlp'', ''--newline'', ''--yes-playlist'',
            ''-o'', ''/tmp/out/%(title)s.%(ext)s'',
            ''-f'', ''bestvideo[height<=1080]+bestaudio/best[height<=1080]'',
            ''--merge-output-format'', ''mp4'', ''https://example.org/v'']))),
         Popen [''/usr/bin/python3'', ''-m'', ''yt_dlp'', ''--newline'', ''--yes-playlist'',
            ''-o'', ''/tmp/out/%(title)s.%(ext)s'',
            ''-f'', ''bestvideo[height<=1080]+bestaudio/best[height<=1080]'',
            ''--merge-output-format'', ''mp4'', ''https://example.org/v''],
         Emit (Log_line ''[download]  42.7% of 10MiB''), Emit (Progress 42),
         Emit (Log_line ''[download] 100% of 10MiB''), Emit (Progress 100),
         Wait, Emit (Progress 100), Emit (Finished True ''Download completed.'')], None)
   \<and> returncode (demo_world\<lparr>proc_stdout := [], returncode := - 9\<rparr>) \<noteq> 0
   \<and> run demo_env (demo_world\<lparr>proc_stdout := [], returncode := - 9\<rparr>) demo_cfg =
       ([Mkdir ''/tmp/out'', Emit (Log_line ''Command:''),
         Emit (Log_line (join '' '' (map quote_arg
           [''/usr/bin/python3'', ''-m'', ''yt_dlp'', ''--newline'', ''--yes-playlist'',
            ''-o'', ''/tmp/out/%(title)s.%(ext)s'',
            ''-f'', ''bestvideo[height<=1080]+bestaudio/best[height<=1080]'',
            ''--merge-output-format'', ''mp4'', ''https://example.org/v'']))),
         Popen [''/usr/bin/python3'', ''-m'', ''yt_dlp'', ''--newline'', ''--yes-playlist'',
            ''-o'', ''/tmp/out/%(title)s.%(ext)s'',
            ''-f'', ''bestvideo[height<=1080]+bestaudio/best[height<=1080]'',
            ''--merge-output-format'', ''mp4'', ''https://example.org/v''],
         Wait, Emit (Finished False ''yt-dlp exited with code -9.'')], None)"
proof -
  let ?w = "demo_world\<lparr>proc_stdout := [], returncode := - 9\<rparr>"
  have u: "strip (url demo_cfg) \<noteq> []"
    by code_simp
  have w: "mkdir_error demo_world = None" "popen_error demo_world = None" "returncode demo_world = 0"
    "mkdir_error ?w = None" "popen_error ?w = None" "returncode ?w = - 9" "proc_stdout ?w = []"
    by (simp_all add: demo_world_def)
  have q: "\<forall>it\<in>set (proc_stdout demo_world). is_Line it \<and> \<not> stop_seen it"
    "\<forall>it\<in>set (proc_stdout ?w). is_Line it \<and> \<not> stop_seen it"
    by (simp_all add: demo_world_def)
  have o: "out_dir demo_cfg = ''/tmp/out''"
    by (simp add: demo_cfg_def)
  have s: "show_int (- 9) = ''-9''"
    by code_simp
  note a = C5_exit_code_outcome [OF u w(1) demo_cmd w(2) q(1), THEN conjunct1]
  note b = C5_exit_code_outcome [OF u w(4) demo_cmd w(5) q(2), THEN conjunct1]
  have 1: "run demo_env demo_world demo_cfg =
       ([Mkdir ''/tmp/out'', Emit (Log_line ''Command:''),
         Emit (Log_line (join '' '' (map quote_arg
           [''/usr/bin/python3'', ''-m'', ''yt_dlp'', ''--newline'', ''--yes-playlist'',
            ''-o'', ''/tmp/out/%(title)s.%(ext)s'',
            ''-f'', ''bestvideo[height<=1080]+bestaudio/best[height<=1080]'',
            ''--merge-output-format'', ''mp4'', ''https://example.org/v'']))),
         Popen [''/usr/bin/python3'', ''-m'', ''yt_dlp'', ''--newline'', ''--yes-playlist'',
            ''-o'', ''/tmp/out/%(title)s.%(ext)s'',
            ''-f'', ''bestvideo[height<=1080]+bestaudio/best[height<=1080]'',
            ''--merge-output-format'', ''mp4'', ''https://example.org/v''],
         Emit (Log_line ''[download]  42.7% of 10MiB''), Emit (Progress 42),
         Emit (Log_line ''[download] 100% of 10MiB''), Emit (Progress 100),
         Wait, Emit (Progress 100), Emit (Finished True ''Download completed.'')], None)"
    unfolding a demo_lines w(3) o by simp
  have 2: "run demo_env ?w demo_cfg =
       ([Mkdir ''/tmp/out'', Emit (Log_line ''Command:''),
         Emit (Log_line (join '' '' (map quote_arg
           [''/usr/bin/python3'', ''-m'', ''yt_dlp'', ''--newline'', ''--yes-playlist'',
            ''-o'', ''/tmp/out/%(title)s.%(ext)s'',
            ''-f'', ''bestvideo[height<=1080]+bestaudio/best[height<=1080]'',
            ''--merge-output-format'', ''mp4'', ''https://example.org/v'']))),
         Popen [''/usr/bin/python3'', ''-m'', ''yt_dlp'', ''--newline'', ''--yes-playlist'',
            ''-o'', ''/tmp/out/%(title)s.%(ext)s'',
            ''-f'', ''bestvideo[height<=1080]+bestaudio/best[height<=1080]'',
            ''--merge-output-format'', ''mp4'', ''https://example.org/v''],
         Wait, Emit (Finished False ''yt-dlp exited with code -9.'')], None)"
    unfolding b w(6) w(7) o s by simp
  show ?thesis
    using u w(1-3) 1 2 unfolding w(6) by simp
qed

section \<open>Cancellation\<close>

text \<open>
  C2, as the code has it. When the URL is not blank, the directory and the child were
  created, and the flag \<open>_stop\<close> is seen set at some line after lines read with the flag
  unset, \<open>run\<close> terminates the child and then emits \<open>finished(False, "Download canceled.")\<close>
  as its only \<open>finished\<close> signal, whatever percents the lines before reported. The
  outcome is not a success. The signal has two values of its flag only, and the canceled
  outcome carries the value of a failure; the slot \<open>on_finished\<close> shows it in the error
  dialog and logs it with the prefix \<open>Error:\<close>. What sets it apart from the failures is
  its message: no run emits a \<open>finished\<close> signal with the message \<open>Download canceled.\<close>
  unless it has terminated the child after seeing the flag, and never with the flag of
  success.
\<close>

theorem C2_cancel_outcome_amended:
  assumes "strip (url cfg) \<noteq> []" "mkdir_error w = None" "build_cmd env cfg = Inr cmd"
    "popen_error w = None" "proc_stdout w = quiet @ Line True l # rest"
    "\<forall>it\<in>set quiet. is_Line it \<and> \<not> stop_seen it"
  shows "run env w cfg =
           ([Mkdir (out_dir cfg), Emit (Log_line ''Command:''),
             Emit (Log_line (join '' '' (map quote_arg cmd))), Popen cmd]
            @ fst (read_lines 0 quiet)
            @ [Terminate, Emit (Finished False ''Download canceled.'')],
            None)
       \<and> (\<forall>b m. Emit (Finished b m) \<notin> set (fst (read_lines 0 quiet)))
       \<and> on_finished False ''Download canceled.'' =
           [Append_log ''Download canceled.'', Toggle_controls False, Clear_worker,
            Msg_critical ''Error'' ''Download canceled.'',
            Append_log ''Error: Download canceled.'']
       \<and> (\<forall>b w' cfg'. Emit (Finished b ''Download canceled.'') \<in> set (fst (run env w' cfg')) \<longrightarrow>
             \<not> b \<and> Terminate \<in> set (fst (run env w' cfg')))"
proof -
  have l: "read_lines 0 (proc_stdout w) = (fst (read_lines 0 quiet) @ [Terminate], Stopped)"
    unfolding assms(5) using assms(6) by (rule read_lines_stop)
  have 1: "run env w cfg =
           ([Mkdir (out_dir cfg), Emit (Log_line ''Command:''),
             Emit (Log_line (join '' '' (map quote_arg cmd))), Popen cmd]
            @ fst (read_lines 0 quiet)
            @ [Terminate, Emit (Finished False ''Download canceled.'')],
            None)"
    using assms(1-4) l by (simp add: run_def)
  have 2: "\<forall>b m. Emit (Finished b m) \<notin> set (fst (read_lines 0 quiet))"
    using read_lines_no_finished by blast
  have 3: "on_finished False ''Download canceled.'' =
           [Append_log ''Download canceled.'', Toggle_controls False, Clear_worker,
            Msg_critical ''Error'' ''Download canceled.'',
            Append_log ''Error: Download canceled.'']"
    by (simp add: on_finished_def)
  have 4: "\<not> b \<and> Terminate \<in> set (fst (run env w' cfg'))"
    if "Emit (Finished b ''Download canceled.'') \<in> set (fst (run env w' cfg'))" for b w' cfg'
  proof -
    obtain lfx ex where r: "read_lines 0 (proc_stdout w') = (lfx, ex)"
      by (cases "read_lines 0 (proc_stdout w')") auto
    have nf: "Emit (Finished b ''Download canceled.'') \<notin> set lfx"
      using read_lines_no_finished [of b "''Download canceled.''" 0 "proc_stdout w'"] r by simp
    have tm: "ex = Stopped \<Longrightarrow> Terminate \<in> set lfx"
      using read_lines_Stopped_terminate [of 0 "proc_stdout w'"] r by simp
    show ?thesis
      using that r nf tm
      by (cases ex) (auto simp: run_def Let_def split: if_splits option.splits sum.splits)
  qed
  show ?thesis
    using 1 2 3 4 by blast
qed

theorem C2_cancel_outcome_amended_witness:
  "strip (url demo_cfg) \<noteq> [] \<and> mkdir_error demo_cancel_world = None
   \<and> popen_error demo_cancel_world = None
   \<and> proc_stdout demo_cancel_world =
        [Line False ''[download]  99.0% of 10MiB''] @ Line True ''[download] 100% of 10MiB'' # []
   \<and> run demo_env demo_cancel_world demo_cfg =
       ([Mkdir (out_dir demo_cfg), Emit (Log_line ''Command:''),
         Emit (Log_line (join '' '' (map quote_arg
           [''/usr/bin/python3'', ''-m'', ''yt_dlp'', ''--newline'', ''--yes-playlist'',
            ''-o'', ''/tmp/out/%(title)s.%(ext)s'',
            ''-f'', ''bestvideo[height<=1080]+bestaudio/best[height<=1080]'',
            ''--merge-output-format'', ''mp4'', ''https://example.org/v'']))),
         Popen [''/usr/bin/python3'', ''-m'', ''yt_dlp'', ''--newline'', ''--yes-playlist'',
            ''-o'', ''/tmp/out/%(title)s.%(ext)s'',
            ''-f'', ''bestvideo[height<=1080]+bestaudio/best[height<=1080]'',
            ''--merge-output-format'', ''mp4'', ''https://example.org/v'']]
        @ fst (read_lines 0 [Line False ''[download]  99.0% of 10MiB''])
        @ [Terminate, Emit (Finished False ''Download canceled.'')], None)
   \<and> Emit (Finished False ''Download canceled.'') \<in> set (fst (run demo_env demo_cancel_world demo_cfg))
   \<and> Terminate \<in> set (fst (run demo_env demo_cancel_world demo_cfg))"
proof -
  have u: "strip (url demo_cfg) \<noteq> []"
    by code_simp
  have w: "mkdir_error demo_cancel_world = None" "popen_error demo_cancel_world = None"
    "proc_stdout demo_cancel_world =
        [Line False ''[download]  99.0% of 10MiB''] @ Line True ''[download] 100% of 10MiB'' # []"
    by (simp_all add: demo_cancel_world_def)
  have q: "\<forall>it\<in>set [Line False ''[download]  99.0% of 10MiB'']. is_Line it \<and> \<not> stop_seen it"
    by simp
  note a = C2_cancel_outcome_amended [OF u w(1) demo_cmd w(2) w(3) q]
  have m: "Emit (Finished False ''Download canceled.'') \<in> set (fst (run demo_env demo_cancel_world demo_cfg))"
    unfolding a [THEN conjunct1] by simp
  with a have "Terminate \<in> set (fst (run demo_env demo_cancel_world demo_cfg))"
    by blast
  with u w m a show ?thesis
    by blast
qed

text \<open>
  As the specification words it, the property fails: after a report of 99 percent the
  run is canceled, and the outcome that \<open>run\<close> emits has the flag of a failure, which
  \<open>on_finished\<close> treats as every other failure.
\<close>

theorem C2_cancel_outcome_counterexample:
  "run demo_env demo_cancel_world demo_cfg =
     ([Mkdir ''/tmp/out'', Emit (Log_line ''Command:''),
       Emit (Log_line ''/usr/bin/python3 -m yt_dlp --newline --yes-playlist -o /tmp/out/%(title)s.%(ext)s -f bestvideo[height<=1080]+bestaudio/best[height<=1080] --merge-output-format mp4 https://example.org/v''),
       Popen [''/usr/bin/python3'', ''-m'', ''yt_dlp'', ''--newline'', ''--yes-playlist'',
              ''-o'', ''/tmp/out/%(title)s.%(ext)s'',
              ''-f'', ''bestvideo[height<=1080]+bestaudio/best[height<=1080]'',
              ''--merge-output-format'', ''mp4'', ''https://example.org/v''],
       Emit (Log_line ''[download]  99.0% of 10MiB''), Emit (Progress 99),
       Terminate, Emit (Finished False ''Download canceled.'')], None)
   \<and> on_finished False ''Download canceled.'' =
       [Append_log ''Download canceled.'', Toggle_controls False, Clear_worker,
        Msg_critical ''Error'' ''Download canceled.'',
        Append_log ''Error: Download canceled.'']"
proof -
  have u: "strip (url demo_cfg) \<noteq> []"
    by code_simp
  have w: "mkdir_error demo_cancel_world = None" "popen_error demo_cancel_world = None"
    by (simp_all add: demo_cancel_world_def)
  have l: "read_lines 0 (proc_stdout demo_cancel_world) =
      ([Emit (Log_line ''[download]  99.0% of 10MiB''), Emit (Progress 99), Terminate], Stopped)"
    by (simp add: demo_cancel_world_def handle_99_0)
  have j: "join '' '' (map quote_arg
             [''/usr/bin/python3'', ''-m'', ''yt_dlp'', ''--newline'', ''--yes-playlist'',
              ''-o'', ''/tmp/out/%(title)s.%(ext)s'',
              ''-f'', ''bestvideo[height<=1080]+bestaudio/best[height<=1080]'',
              ''--merge-output-format'', ''mp4'', ''https://example.org/v''])
      = ''/usr/bin/python3 -m yt_dlp --newline --yes-playlist -o /tmp/out/%(title)s.%(ext)s -f bestvideo[height<=1080]+bestaudio/best[height<=1080] --merge-output-format mp4 https://example.org/v''"
    by code_simp
  have o: "out_dir demo_cfg = ''/tmp/out''"
    by (simp add: demo_cfg_def)
  have "run demo_env demo_cancel_world demo_cfg =
     ([Mkdir ''/tmp/out'', Emit (Log_line ''Command:''),
       Emit (Log_line ''/usr/bin/python3 -m yt_dlp --newline --yes-playlist -o /tmp/out/%(title)s.%(ext)s -f bestvideo[height<=1080]+bestaudio/best[height<=1080] --merge-output-format mp4 https://example.org/v''),
       Popen [''/usr/bin/python3'', ''-m'', ''yt_dlp'', ''--newline'', ''--yes-playlist'',
              ''-o'', ''/tmp/out/%(title)s.%(ext)s'',
              ''-f'', ''bestvideo[height<=1080]+bestaudio/best[height<=1080]'',
              ''--merge-output-format'', ''mp4'', ''https://example.org/v''],
       Emit (Log_line ''[download]  99.0% of 10MiB''), Emit (Progress 99),
       Terminate, Emit (Finished False ''Download canceled.'')], None)"
    unfolding run_def if_not_P [OF u] w demo_cmd l j [symmetric] o by simp
  then show ?thesis
    by (simp add: on_finished_def)
qed

section \<open>Rejection of a blank or malformed URL\<close>

text \<open>
  C9. A worker whose URL is blank emits \<open>finished(False, "URL is required.")\<close> and does
  nothing else: no directory is made and no child is started. In the window, the URL of
  the request is the trimmed text of the URL field; when it is empty, or when it begins
  neither with \<open>http://\<close> nor with \<open>https://\<close>, \<open>start_download\<close> shows the error dialog
  and creates no worker, so that no child is started. Hence a child is started from the
  window only for a URL that is not empty and has one of the two prefixes.
\<close>

theorem C9_url_rejected_before_spawn:
  "(strip (url cfg) = [] \<longrightarrow> run env w cfg = ([Emit (Finished False ''URL is required.'')], None))
   \<and> url (build_config f) = strip (url_edit f)
   \<and> (url (build_config f) = [] \<longrightarrow>
        start_download f = ([Msg_critical ''Error'' ''URL is required.''], None)
        \<and> worker_effects env w f = [])
   \<and> (url (build_config f) \<noteq> [] \<and> \<not> startswith (url (build_config f)) ''http://''
        \<and> \<not> startswith (url (build_config f)) ''https://'' \<longrightarrow>
        start_download f = ([Msg_critical ''Error'' ''URL must start with http:// or https://''], None)
        \<and> worker_effects env w f = [])
   \<and> ((\<exists>cmd. Popen cmd \<in> set (worker_effects env w f)) \<longrightarrow>
        url (build_config f) \<noteq> []
        \<and> (startswith (url (build_config f)) ''http://'' \<or> startswith (url (build_config f)) ''https://''))"
proof -
  have u: "url (build_config f) = strip (url_edit f)"
    by (simp add: build_config_def)
  have a: "strip (url cfg) = [] \<Longrightarrow> run env w cfg = ([Emit (Finished False ''URL is required.'')], None)"
    by (simp add: run_def)
  have b: "strip (url_edit f) = [] \<Longrightarrow>
        start_download f = ([Msg_critical ''Error'' ''URL is required.''], None)"
    by (simp add: start_download_def validate_inputs_def)
  have c: "strip (url_edit f) \<noteq> [] \<and> \<not> startswith (strip (url_edit f)) ''http://''
        \<and> \<not> startswith (strip (url_edit f)) ''https://'' \<Longrightarrow>
        start_download f = ([Msg_critical ''Error'' ''URL must start with http:// or https://''], None)"
    by (simp add: start_download_def validate_inputs_def)
  have d: "snd (start_download f) = None \<Longrightarrow> worker_effects env w f = []"
    by (simp add: worker_effects_def)
  show ?thesis
    unfolding u using a b c d by (metis empty_iff list.set(1) snd_conv)
qed

theorem C9_url_rejected_before_spawn_witness:
  "strip (url (demo_cfg\<lparr>url := '' ''\<rparr>)) = []
   \<and> run demo_env demo_world (demo_cfg\<lparr>url := '' ''\<rparr>) = ([Emit (Finished False ''URL is required.'')], None)
   \<and> url (build_config (demo_form\<lparr>url_edit := '' ''\<rparr>)) = []
   \<and> worker_effects demo_env demo_world (demo_form\<lparr>url_edit := '' ''\<rparr>) = []
   \<and> url (build_config (demo_form\<lparr>url_edit := ''ftp://example.org/v''\<rparr>)) = ''ftp://example.org/v''
   \<and> start_download (demo_form\<lparr>url_edit := ''ftp://example.org/v''\<rparr>) =
        ([Msg_critical ''Error'' ''URL must start with http:// or https://''], None)
   \<and> worker_effects demo_env demo_world (demo_form\<lparr>url_edit := ''ftp://example.org/v''\<rparr>) = []
   \<and> Popen [''/usr/bin/python3'', ''-m'', ''yt_dlp'', ''--newline'', ''--no-playlist'',
            ''-o'', ''/tmp/out/%(title)s.%(ext)s'',
            ''-f'', ''bestvideo+bestaudio/best'',
            ''--merge-output-format'', ''mp4'', ''https://example.org/v'']
        \<in> set (worker_effects demo_env (demo_world\<lparr>proc_stdout := []\<rparr>) demo_form)
   \<and> startswith (url (build_config demo_form)) ''https://''"
proof -
  let ?b = "demo_form\<lparr>url_edit := '' ''\<rparr>"
  let ?f = "demo_form\<lparr>url_edit := ''ftp://example.org/v''\<rparr>"
  have 1: "strip (url (demo_cfg\<lparr>url := '' ''\<rparr>)) = []"
    by code_simp
  have 2: "url (build_config ?b) = []"
    by code_simp
  have 3: "url (build_config ?f) = ''ftp://example.org/v''"
    by code_simp
  have 4: "\<not> startswith ''ftp://example.org/v'' ''http://''" "\<not> startswith ''ftp://example.org/v'' ''https://''"
    by code_simp+
  have 5: "Popen [''/usr/bin/python3'', ''-m'', ''yt_dlp'', ''--newline'', ''--no-playlist'',
            ''-o'', ''/tmp/out/%(title)s.%(ext)s'',
            ''-f'', ''bestvideo+bestaudio/best'',
            ''--merge-output-format'', ''mp4'', ''https://example.org/v'']
        \<in> set (worker_effects demo_env (demo_world\<lparr>proc_stdout := []\<rparr>) demo_form)"
    by code_simp
  from C9_url_rejected_before_spawn [of "demo_cfg\<lparr>url := '' ''\<rparr>" demo_env demo_world ?b]
  have a: "run demo_env demo_world (demo_cfg\<lparr>url := '' ''\<rparr>) = ([Emit (Finished False ''URL is required.'')], None)"
    "worker_effects demo_env demo_world ?b = []"
    using 1 2 by blast+
  from C9_url_rejected_before_spawn [of demo_cfg demo_env demo_world ?f]
  have b: "start_download ?f = ([Msg_critical ''Error'' ''URL must start with http:// or https://''], None)"
    "worker_effects demo_env demo_world ?f = []"
    using 3 4 by auto
  from C9_url_rejected_before_spawn [of demo_cfg demo_env "demo_world\<lparr>proc_stdout := []\<rparr>" demo_form] 5
  have c: "startswith (url (build_config demo_form)) ''http://''
           \<or> startswith (url (build_config demo_form)) ''https://''"
    by blast
  have "\<not> startswith (url (build_config demo_form)) ''http://''"
    by code_simp
  with c have d: "startswith (url (build_config demo_form)) ''https://''"
    by blast
  show ?thesis
    using 1 2 3 5 a b d by blast
qed

section \<open>The progress parser\<close>

text \<open>
  C4, as the code has it. For every line read and every value of \<open>percent\<close>, the body of
  the loop first strips trailing white space from the line and forwards the stripped
  line. If the stripped line has no match of the pattern, that is all. If it has one,
  the number of the leftmost match (one or more decimal digits, or digits, a point and
  digits, after the marker \<open>[download]\<close> and at least one white-space character, and
  before a percent sign) is converted to the nearest float: every place of the stripped
  line where the marker, white space, a decimal number and a percent sign stand in a row
  begins at or after the place of that match, and one that begins at the same place
  holds the same number. When the float is finite, it is
  truncated to an integer, and that integer clamped to the range from 0 to 100 is
  reported as the percent. When the float is infinite, which is the case exactly when
  the number is at least \<open>2^1024 - 2^970\<close>, the truncation fails, the exception is
  swallowed, and no percent is reported. The stripped line has a match
  exactly when it holds the marker, white space, a decimal number and a percent sign in
  a row. The body never raises, and a reported percent is always between 0 and 100. For
  the line \<open>[download]  42.7% of 10MiB\<close> the percent 42 is reported.
\<close>

theorem C4_progress_parser_amended:
  fixes raw :: string and p0 :: int
  defines "line \<equiv> rstrip raw"
  shows "(pat_search line = None \<longrightarrow> handle_line p0 raw = ([Emit (Log_line line)], p0))
   \<and> (\<forall>g m e. pat_search line = Some g \<and> py_float_decimal g = Finite m e \<longrightarrow>
        handle_line p0 raw =
          ([Emit (Log_line line),
            Emit (Progress (min (max (if 0 \<le> e then int (m * 2 ^ nat e) else int (m div 2 ^ nat (- e))) 0) 100))],
           if 0 \<le> e then int (m * 2 ^ nat e) else int (m div 2 ^ nat (- e))))
   \<and> (\<forall>g. pat_search line = Some g \<and> py_float_decimal g = Infinity \<longrightarrow>
        handle_line p0 raw = ([Emit (Log_line line)], p0))
   \<and> (\<forall>g. pat_search line = Some g \<longrightarrow>
        (\<exists>pre ws ip fr post. line = pre @ ''[download]'' @ ws @ ip @ fr @ ''%'' @ post \<and> g = ip @ fr
           \<and> ws \<noteq> [] \<and> list_all isspace ws \<and> ip \<noteq> [] \<and> list_all isdecimal_char ip
           \<and> (fr = [] \<or> (\<exists>fp. fr = CHR ''.'' # fp \<and> fp \<noteq> [] \<and> list_all isdecimal_char fp))
           \<and> (\<forall>pre' ws' ip' fr' post'.
                 line = pre' @ ''[download]'' @ ws' @ ip' @ fr' @ ''%'' @ post'
                 \<and> ws' \<noteq> [] \<and> list_all isspace ws' \<and> ip' \<noteq> [] \<and> list_all isdecimal_char ip'
                 \<and> (fr' = [] \<or> (\<exists>fp. fr' = CHR ''.'' # fp \<and> fp \<noteq> [] \<and> list_all isdecimal_char fp))
                 \<longrightarrow> length pre \<le> length pre' \<and> (length pre' = length pre \<longrightarrow> ip' @ fr' = g))
           \<and> py_float_decimal g =
               float_of_ratio (nat_of_digits (ip @ drop 1 fr)) (10 ^ (length fr - 1))
           \<and> (py_float_decimal g = Infinity \<longleftrightarrow>
                2 ^ 1024 * 10 ^ (length fr - 1)
                  \<le> nat_of_digits (ip @ drop 1 fr) + 2 ^ 970 * 10 ^ (length fr - 1))))
   \<and> ((\<exists>pre ws ip fr post. line = pre @ ''[download]'' @ ws @ ip @ fr @ ''%'' @ post
           \<and> ws \<noteq> [] \<and> list_all isspace ws \<and> ip \<noteq> [] \<and> list_all isdecimal_char ip
           \<and> (fr = [] \<or> (\<exists>fp. fr = CHR ''.'' # fp \<and> fp \<noteq> [] \<and> list_all isdecimal_char fp)))
        \<longrightarrow> pat_search line \<noteq> None)
   \<and> (\<forall>q. Emit (Progress q) \<in> set (fst (handle_line p0 raw)) \<longrightarrow> 0 \<le> q \<and> q \<le> 100)
   \<and> handle_line p0 ''[download]  42.7% of 10MiB'' =
        ([Emit (Log_line ''[download]  42.7% of 10MiB''), Emit (Progress 42)], 42)"
proof -
  have 1: "pat_search line = None \<longrightarrow> handle_line p0 raw = ([Emit (Log_line line)], p0)"
    by (simp add: handle_line_def line_def)
  have 2: "handle_line p0 raw =
          ([Emit (Log_line line),
            Emit (Progress (min (max (if 0 \<le> e then int (m * 2 ^ nat e) else int (m div 2 ^ nat (- e))) 0) 100))],
           if 0 \<le> e then int (m * 2 ^ nat e) else int (m div 2 ^ nat (- e)))"
    if "pat_search line = Some g \<and> py_float_decimal g = Finite m e" for g m e
    using that by (simp add: handle_line_def line_def py_int_float_def)
  have 3: "handle_line p0 raw = ([Emit (Log_line line)], p0)"
    if "pat_search line = Some g \<and> py_float_decimal g = Infinity" for g
    using that by (simp add: handle_line_def line_def py_int_float_def)
  have 4: "\<exists>pre ws ip fr post. line = pre @ ''[download]'' @ ws @ ip @ fr @ ''%'' @ post \<and> g = ip @ fr
           \<and> ws \<noteq> [] \<and> list_all isspace ws \<and> ip \<noteq> [] \<and> list_all isdecimal_char ip
           \<and> (fr = [] \<or> (\<exists>fp. fr = CHR ''.'' # fp \<and> fp \<noteq> [] \<and> list_all isdecimal_char fp))
           \<and> (\<forall>pre' ws' ip' fr' post'.
                 line = pre' @ ''[download]'' @ ws' @ ip' @ fr' @ ''%'' @ post'
                 \<and> ws' \<noteq> [] \<and> list_all isspace ws' \<and> ip' \<noteq> [] \<and> list_all isdecimal_char ip'
                 \<and> (fr' = [] \<or> (\<exists>fp. fr' = CHR ''.'' # fp \<and> fp \<noteq> [] \<and> list_all isdecimal_char fp))
                 \<longrightarrow> length pre \<le> length pre' \<and> (length pre' = length pre \<longrightarrow> ip' @ fr' = g))
           \<and> py_float_decimal g =
               float_of_ratio (nat_of_digits (ip @ drop 1 fr)) (10 ^ (length fr - 1))
           \<and> (py_float_decimal g = Infinity \<longleftrightarrow>
                2 ^ 1024 * 10 ^ (length fr - 1)
                  \<le> nat_of_digits (ip @ drop 1 fr) + 2 ^ 970 * 10 ^ (length fr - 1))"
    if "pat_search line = Some g" for g
  proof -
    from pat_search_leftmost [OF that] obtain pre suf
      where l: "line = pre @ suf" and s: "pat_match_at suf = Some g"
        and least: "\<And>pre' suf'. line = pre' @ suf' \<Longrightarrow> length pre' < length pre
                      \<Longrightarrow> pat_match_at suf' = None"
      by blast
    from pat_match_at_sound [OF s] obtain ws ip fr post
      where d: "suf = ''[download]'' @ ws @ ip @ fr @ ''%'' @ post" "g = ip @ fr"
        "ws \<noteq> []" "list_all isspace ws" "ip \<noteq> []" "list_all isdecimal_char ip"
        "fr = [] \<or> (\<exists>fp. fr = CHR ''.'' # fp \<and> fp \<noteq> [] \<and> list_all isdecimal_char fp)"
      by blast
    have F: "py_float_decimal g =
               float_of_ratio (nat_of_digits (ip @ drop 1 fr)) (10 ^ (length fr - 1))"
      unfolding d(2) using d(6) d(7) by (rule py_float_decimal_decomp)
    have I: "py_float_decimal g = Infinity \<longleftrightarrow>
                2 ^ 1024 * 10 ^ (length fr - 1)
                  \<le> nat_of_digits (ip @ drop 1 fr) + 2 ^ 970 * 10 ^ (length fr - 1)"
      unfolding F by (rule float_of_ratio_Infinity_iff0) simp
    have L: "length pre \<le> length pre' \<and> (length pre' = length pre \<longrightarrow> ip' @ fr' = g)"
      if m: "line = pre' @ ''[download]'' @ ws' @ ip' @ fr' @ ''%'' @ post'
                 \<and> ws' \<noteq> [] \<and> list_all isspace ws' \<and> ip' \<noteq> [] \<and> list_all isdecimal_char ip'
                 \<and> (fr' = [] \<or> (\<exists>fp. fr' = CHR ''.'' # fp \<and> fp \<noteq> [] \<and> list_all isdecimal_char fp))"
      for pre' ws' ip' fr' post'
    proof -
      define suf' where "suf' = ''[download]'' @ ws' @ ip' @ fr' @ ''%'' @ post'"
      from m have l': "line = pre' @ suf'"
        unfolding suf'_def by blast
      from m have c: "ws' \<noteq> []" "list_all isspace ws'" "ip' \<noteq> []" "list_all isdecimal_char ip'"
        "fr' = [] \<or> (\<exists>fp. fr' = CHR ''.'' # fp \<and> fp \<noteq> [] \<and> list_all isdecimal_char fp)"
        by blast+
      have s': "pat_match_at suf' = Some (ip' @ fr')"
        unfolding suf'_def by (rule pat_match_at_complete [OF c])
      have a: "length pre \<le> length pre'"
      proof (rule ccontr)
        assume "\<not> length pre \<le> length pre'"
        then have "length pre' < length pre" by simp
        from least [OF l' this] s' show False by simp
      qed
      have b: "ip' @ fr' = g" if e: "length pre' = length pre"
      proof -
        from l l' have "pre' @ suf' = pre @ suf" by simp
        with e have "suf' = suf" by simp
        with s s' show ?thesis by simp
      qed
      from a b show ?thesis by blast
    qed
    have D: "line = pre @ ''[download]'' @ ws @ ip @ fr @ ''%'' @ post"
      unfolding l d(1) by (rule refl)
    from L have L0: "\<forall>pre' ws' ip' fr' post'.
                 line = pre' @ ''[download]'' @ ws' @ ip' @ fr' @ ''%'' @ post'
                 \<and> ws' \<noteq> [] \<and> list_all isspace ws' \<and> ip' \<noteq> [] \<and> list_all isdecimal_char ip'
                 \<and> (fr' = [] \<or> (\<exists>fp. fr' = CHR ''.'' # fp \<and> fp \<noteq> [] \<and> list_all isdecimal_char fp))
                 \<longrightarrow> length pre \<le> length pre' \<and> (length pre' = length pre \<longrightarrow> ip' @ fr' = g)"
      by (intro allI impI)
    show ?thesis
    proof (intro exI)
      show "line = pre @ ''[download]'' @ ws @ ip @ fr @ ''%'' @ post \<and> g = ip @ fr
           \<and> ws \<noteq> [] \<and> list_all isspace ws \<and> ip \<noteq> [] \<and> list_all isdecimal_char ip
           \<and> (fr = [] \<or> (\<exists>fp. fr = CHR ''.'' # fp \<and> fp \<noteq> [] \<and> list_all isdecimal_char fp))
           \<and> (\<forall>pre' ws' ip' fr' post'.
                 line = pre' @ ''[download]'' @ ws' @ ip' @ fr' @ ''%'' @ post'
                 \<and> ws' \<noteq> [] \<and> list_all isspace ws' \<and> ip' \<noteq> [] \<and> list_all isdecimal_char ip'
                 \<and> (fr' = [] \<or> (\<exists>fp. fr' = CHR ''.'' # fp \<and> fp \<noteq> [] \<and> list_all isdecimal_char fp))
                 \<longrightarrow> length pre \<le> length pre' \<and> (length pre' = length pre \<longrightarrow> ip' @ fr' = g))
           \<and> py_float_decimal g =
               float_of_ratio (nat_of_digits (ip @ drop 1 fr)) (10 ^ (length fr - 1))
           \<and> (py_float_decimal g = Infinity \<longleftrightarrow>
                2 ^ 1024 * 10 ^ (length fr - 1)
                  \<le> nat_of_digits (ip @ drop 1 fr) + 2 ^ 970 * 10 ^ (length fr - 1))"
        by (intro conjI D d(2-7) L0 F I)
    qed
  qed
  have 5: "(\<exists>pre ws ip fr post. line = pre @ ''[download]'' @ ws @ ip @ fr @ ''%'' @ post
           \<and> ws \<noteq> [] \<and> list_all isspace ws \<and> ip \<noteq> [] \<and> list_all isdecimal_char ip
           \<and> (fr = [] \<or> (\<exists>fp. fr = CHR ''.'' # fp \<and> fp \<noteq> [] \<and> list_all isdecimal_char fp)))
        \<longrightarrow> pat_search line \<noteq> None"
  proof
    assume "\<exists>pre ws ip fr post. line = pre @ ''[download]'' @ ws @ ip @ fr @ ''%'' @ post
           \<and> ws \<noteq> [] \<and> list_all isspace ws \<and> ip \<noteq> [] \<and> list_all isdecimal_char ip
           \<and> (fr = [] \<or> (\<exists>fp. fr = CHR ''.'' # fp \<and> fp \<noteq> [] \<and> list_all isdecimal_char fp))"
    then obtain pre ws ip fr post
      where l: "line = pre @ (''[download]'' @ ws @ ip @ fr @ ''%'' @ post)"
        and c: "ws \<noteq> []" "list_all isspace ws" "ip \<noteq> []" "list_all isdecimal_char ip"
          "fr = [] \<or> (\<exists>fp. fr = CHR ''.'' # fp \<and> fp \<noteq> [] \<and> list_all isdecimal_char fp)"
      by blast
    have "pat_match_at (''[download]'' @ ws @ ip @ fr @ ''%'' @ post) \<noteq> None"
      using pat_match_at_complete [OF c] by simp
    then show "pat_search line \<noteq> None"
      unfolding l by (rule pat_search_complete)
  qed
  have 6: "0 \<le> q \<and> q \<le> 100" if "Emit (Progress q) \<in> set (fst (handle_line p0 raw))" for q
    using that by (auto simp: handle_line_def Let_def split: option.splits sum.splits)
  show ?thesis
  proof (intro conjI allI impI)
    show "handle_line p0 raw = ([Emit (Log_line line)], p0)" if "pat_search line = None"
      using 1 that by (rule mp)
    show "handle_line p0 raw =
          ([Emit (Log_line line),
            Emit (Progress (min (max (if 0 \<le> e then int (m * 2 ^ nat e) else int (m div 2 ^ nat (- e))) 0) 100))],
           if 0 \<le> e then int (m * 2 ^ nat e) else int (m div 2 ^ nat (- e)))"
      if "pat_search line = Some g \<and> py_float_decimal g = Finite m e" for g m e
      using that by (rule 2)
    show "handle_line p0 raw = ([Emit (Log_line line)], p0)"
      if "pat_search line = Some g \<and> py_float_decimal g = Infinity" for g
      using that by (rule 3)
    show "\<exists>pre ws ip fr post. line = pre @ ''[download]'' @ ws @ ip @ fr @ ''%'' @ post \<and> g = ip @ fr
           \<and> ws \<noteq> [] \<and> list_all isspace ws \<and> ip \<noteq> [] \<and> list_all isdecimal_char ip
           \<and> (fr = [] \<or> (\<exists>fp. fr = CHR ''.'' # fp \<and> fp \<noteq> [] \<and> list_all isdecimal_char fp))
           \<and> (\<forall>pre' ws' ip' fr' post'.
                 line = pre' @ ''[download]'' @ ws' @ ip' @ fr' @ ''%'' @ post'
                 \<and> ws' \<noteq> [] \<and> list_all isspace ws' \<and> ip' \<noteq> [] \<and> list_all isdecimal_char ip'
                 \<and> (fr' = [] \<or> (\<exists>fp. fr' = CHR ''.'' # fp \<and> fp \<noteq> [] \<and> list_all isdecimal_char fp))
                 \<longrightarrow> length pre \<le> length pre' \<and> (length pre' = length pre \<longrightarrow> ip' @ fr' = g))
           \<and> py_float_decimal g =
               float_of_ratio (nat_of_digits (ip @ drop 1 fr)) (10 ^ (length fr - 1))
           \<and> (py_float_decimal g = Infinity \<longleftrightarrow>
                2 ^ 1024 * 10 ^ (length fr - 1)
                  \<le> nat_of_digits (ip @ drop 1 fr) + 2 ^ 970 * 10 ^ (length fr - 1))"
      if "pat_search line = Some g" for g
      using that by (rule 4)
    show "pat_search line \<noteq> None"
      if "\<exists>pre ws ip fr post. line = pre @ ''[download]'' @ ws @ ip @ fr @ ''%'' @ post
           \<and> ws \<noteq> [] \<and> list_all isspace ws \<and> ip \<noteq> [] \<and> list_all isdecimal_char ip
           \<and> (fr = [] \<or> (\<exists>fp. fr = CHR ''.'' # fp \<and> fp \<noteq> [] \<and> list_all isdecimal_char fp))"
      using 5 that by (rule mp)
    show "0 \<le> q" if "Emit (Progress q) \<in> set (fst (handle_line p0 raw))" for q
      using 6 [OF that] by (rule conjunct1)
    show "q \<le> 100" if "Emit (Progress q) \<in> set (fst (handle_line p0 raw))" for q
      using 6 [OF that] by (rule conjunct2)
    show "handle_line p0 ''[download]  42.7% of 10MiB'' =
        ([Emit (Log_line ''[download]  42.7% of 10MiB''), Emit (Progress 42)], 42)"
      by (rule handle_42_7)
  qed
qed

theorem C4_progress_parser_amended_witness:
  "pat_search (rstrip (''[download]  42.7% of 10MiB'' @ [CHR 0x0A])) = Some ''42.7''
   \<and> py_float_decimal ''42.7'' = Finite 6009490752772506 (- 47)
   \<and> handle_line 0 (''[download]  42.7% of 10MiB'' @ [CHR 0x0A]) =
        ([Emit (Log_line ''[download]  42.7% of 10MiB''), Emit (Progress 42)], 42)
   \<and> pat_search (rstrip ''some unrelated status text'') = None
   \<and> handle_line 0 ''some unrelated status text'' =
        ([Emit (Log_line ''some unrelated status text'')], 0)
   \<and> pat_search (rstrip (''[download] '' @ replicate 309 (CHR ''9'') @ ''%'')) =
        Some (replicate 309 (CHR ''9''))
   \<and> py_float_decimal (replicate 309 (CHR ''9'')) = Infinity
   \<and> handle_line 7 (''[download] '' @ replicate 309 (CHR ''9'') @ ''%'') =
        ([Emit (Log_line (''[download] '' @ replicate 309 (CHR ''9'') @ ''%''))], 7)"
proof -
  define a where "a = ''[download]  42.7% of 10MiB'' @ [CHR 0x0A]"
  define b where "b = ''some unrelated status text''"
  define c where "c = ''[download] '' @ replicate 309 (CHR ''9'') @ ''%''"
  define n where "n = replicate 309 (CHR ''9'')"
  have ra: "rstrip a = ''[download]  42.7% of 10MiB''"
    unfolding a_def by code_simp
  have rb: "rstrip b = b"
    unfolding b_def by code_simp
  have rc: "rstrip c = c"
    unfolding c_def by code_simp
  have sa: "pat_search (rstrip a) = Some ''42.7''"
    unfolding a_def by code_simp
  have sb: "pat_search (rstrip b) = None"
    unfolding b_def by code_simp
  have sc: "pat_search (rstrip c) = Some n"
    unfolding c_def n_def by code_simp
  have fc: "py_float_decimal n = Infinity"
    unfolding n_def py_float_decimal_nines float_of_nines_309 by (rule refl)
  have "handle_line 0 a =
      ([Emit (Log_line (rstrip a)),
        Emit (Progress (min (max (if (0::int) \<le> - 47 then int (6009490752772506 * 2 ^ nat (- 47))
                                  else int (6009490752772506 div 2 ^ nat (- (- 47)))) 0) 100))],
       if (0::int) \<le> - 47 then int (6009490752772506 * 2 ^ nat (- 47))
       else int (6009490752772506 div 2 ^ nat (- (- 47))))"
    using C4_progress_parser_amended [of a 0, THEN conjunct2, THEN conjunct1, rule_format,
        of "''42.7''" 6009490752772506 "- 47"] sa float_42_7 by blast
  then have ha: "handle_line 0 a =
        ([Emit (Log_line ''[download]  42.7% of 10MiB''), Emit (Progress 42)], 42)"
    by (simp add: ra)
  have hb: "handle_line 0 b = ([Emit (Log_line b)], 0)"
    using C4_progress_parser_amended [of b 0, THEN conjunct1] sb unfolding rb by blast
  have hc: "handle_line 7 c = ([Emit (Log_line c)], 7)"
    using C4_progress_parser_amended [of c 7, THEN conjunct2, THEN conjunct2, THEN conjunct1,
        rule_format, of n] sc fc unfolding rc by blast
  show ?thesis
    using sa float_42_7 ha sb hb sc fc hc unfolding a_def b_def c_def n_def by blast
qed

text \<open>
  As the specification words it, the property fails twice. A line that matches the
  pattern with a number of 309 digits reports no percent, because the float is infinite
  and its truncation raises; and a line with white space at its end is forwarded
  without it.
\<close>

theorem C4_progress_parser_counterexample:
  "pat_search (rstrip (''[download] '' @ replicate 309 (CHR ''9'') @ ''%'')) =
      Some (replicate 309 (CHR ''9''))
   \<and> handle_line 0 (''[download] '' @ replicate 309 (CHR ''9'') @ ''%'') =
        ([Emit (Log_line (''[download] '' @ replicate 309 (CHR ''9'') @ ''%''))], 0)
   \<and> handle_line 0 ''status  '' = ([Emit (Log_line ''status'')], 0)
   \<and> ''status'' \<noteq> ''status  ''"
proof -
  define c where "c = ''[download] '' @ replicate 309 (CHR ''9'') @ ''%''"
  define n where "n = replicate 309 (CHR ''9'')"
  have rc: "rstrip c = c"
    unfolding c_def by code_simp
  have sc: "pat_search c = Some n"
    unfolding c_def n_def by code_simp
  have fc: "py_float_decimal n = Infinity"
    unfolding n_def py_float_decimal_nines float_of_nines_309 by (rule refl)
  have hc: "handle_line 0 c = ([Emit (Log_line c)], 0)"
    by (simp add: handle_line_def rc sc fc py_int_float_def)
  have rs: "rstrip ''status  '' = ''status''" "pat_search ''status'' = None"
    by code_simp+
  have hs: "handle_line 0 ''status  '' = ([Emit (Log_line ''status'')], 0)"
    by (simp add: handle_line_def rs del: pat_search.simps)
  have "pat_search (rstrip c) = Some n"
    unfolding rc by (rule sc)
  then show ?thesis
    using hc hs unfolding c_def n_def by simp
qed

end
